theory Spec2Isabelle
  imports Main "HOL-Library.Word"
begin

unbundle bit_operations_syntax

section \<open>Data model\<close>

text \<open>
  Go strings and byte slices that carry text are \<open>string\<close> (a list of 8-bit characters).
  Byte slices that are hashed or hex-encoded are lists of \<open>8 word\<close>.
\<close>

type_synonym byte = "8 word"

text \<open>
  A value of Go type \<open>any\<close> that \<open>encoding/json\<close> can express. A Go map with string
  keys is the list of its entries, written in the order of the map literal.
\<close>

datatype json =
    JNull
  | JBool bool
  | JNum int
  | JStr string
  | JArr "json list"
  | JObj "(string \<times> json) list"

text \<open>\<open>merkle.Node\<close>; the pointer \<open>ParentHash *string\<close> is an option.\<close>

record Node =
  Hash :: string
  ParentHash :: "string option"
  Content :: json

text \<open>
  Modelled from the spec: the struct \<open>input\<close> that \<open>computeHash\<close> fills and marshals is
  declared outside the files at hand; the spec gives it as the intermediate object
  \<open>{ "content": content, "parent": parent_hash_or_empty_string }\<close>.
\<close>

record input =
  i_Content :: json
  i_Parent :: string

text \<open>
  \<open>[32]byte\<close>, the result type of \<open>sha256.Sum256\<close>: exactly 32 bytes.
\<close>

typedef digest = "{bs :: byte list. length bs = 32}"
  by (rule exI [of _ "replicate 32 0"]) simp

text \<open>
  The two library functions \<open>computeHash\<close> calls are parameters of the model:
  \<open>json.Marshal\<close> on an \<open>input\<close> (total here, since \<open>json\<close> holds only values the
  encoder can represent, so the \<open>panic\<close> branch is not reachable) and \<open>sha256.Sum256\<close>.
\<close>

record hasher =
  json_Marshal :: "input \<Rightarrow> byte list"
  sha256_Sum256 :: "byte list \<Rightarrow> digest"

section \<open>Hex encoding (encoding/hex)\<close>

definition hextable :: string where
  "hextable = ''0123456789abcdef''"

text \<open>
  \<open>hex.EncodeToString\<close>: for each byte \<open>v\<close> the digits \<open>hextable[v>>4]\<close> and
  \<open>hextable[v&0x0f]\<close>.
\<close>

fun EncodeToString :: "byte list \<Rightarrow> string" where
  "EncodeToString [] = []"
| "EncodeToString (v # vs) =
     hextable ! unat (drop_bit 4 v) # hextable ! unat (v AND 0x0f) # EncodeToString vs"

section \<open>Node model and hasher\<close>

definition computeHash :: "hasher \<Rightarrow> Node \<Rightarrow> string" where
  "computeHash H n =
     (let i = \<lparr>i_Content = Content n, i_Parent = ''''\<rparr>;
          i = (case ParentHash n of None \<Rightarrow> i | Some ph \<Rightarrow> i\<lparr>i_Parent := ph\<rparr>);
          data = json_Marshal H i;
          h = sha256_Sum256 H data
      in EncodeToString (Rep_digest h))"

definition NewNode :: "hasher \<Rightarrow> json \<Rightarrow> Node option \<Rightarrow> Node" where
  "NewNode H content parent =
     (let n = \<lparr>Hash = '''', ParentHash = None, Content = content\<rparr>;
          n = (case parent of None \<Rightarrow> n | Some p \<Rightarrow> n\<lparr>ParentHash := Some (Hash p)\<rparr>)
      in n\<lparr>Hash := computeHash H n\<rparr>)"

section \<open>Chat messages (package llm)\<close>

text \<open>
  Go's \<open>int64\<close> and, on the 64-bit targets the proxy is built for, \<open>int\<close> are 64-bit
  words; \<open>time.Time\<close> is kept as its RFC 3339 text; \<open>float64\<close> values are only carried.
\<close>

type_synonym int64 = "64 word"
type_synonym Time = string
typedecl float64

record Message =
  Role :: string
  Text :: string
  Images :: "string list"

text \<open>The field \<open>Content\<close> of \<open>llm.Message\<close> is \<open>Text\<close> here, \<open>Content\<close> being the node's.\<close>

record Options =
  Temperature :: "float64 option"
  TopP :: "float64 option"
  TopK :: "int64 option"
  Seed :: "int64 option"
  NumPredict :: "int64 option"
  NumCtx :: "int64 option"
  RepeatPenalty :: "float64 option"
  RepeatLastN :: "int64 option"
  Stop :: "string list"

record ChatRequest =
  req_Model :: string
  req_Messages :: "Message list"
  req_Stream :: "bool option"
  req_Format :: string
  req_Options :: "Options option"
  req_KeepAlive :: string

record ChatResponse =
  resp_Model :: string
  resp_CreatedAt :: Time
  resp_Message :: Message
  resp_Done :: bool
  resp_TotalDuration :: int64
  resp_LoadDuration :: int64
  resp_PromptEvalCount :: int64
  resp_PromptEvalDuration :: int64
  resp_EvalCount :: int64
  resp_EvalDuration :: int64
  resp_Context :: "int64 list"

record StreamChunk =
  chunk_Model :: string
  chunk_CreatedAt :: Time
  chunk_Message :: Message
  chunk_Done :: bool
  chunk_TotalDuration :: int64
  chunk_LoadDuration :: int64
  chunk_PromptEvalCount :: int64
  chunk_PromptEvalDuration :: int64
  chunk_EvalCount :: int64
  chunk_EvalDuration :: int64

section \<open>Errors, contexts, the log\<close>

text \<open>
  A Go \<open>error\<close> value: \<open>merkle.ErrNotFound{Hash}\<close>, any other error with its message, and
  \<open>fmt.Errorf("prefix: %w", err)\<close>.
\<close>

datatype error =
    ErrNotFound string
  | Err string
  | Wrap string error
  | ErrUpstreamStatus int string

text \<open>
  \<open>ErrUpstreamStatus code body\<close> is \<open>fmt.Errorf("upstream returned %d: %s", code, body)\<close>.
\<close>

text \<open>
  The two contexts the proxy passes on: \<open>context.Background()\<close> and the request's
  \<open>c.Context()\<close>.
\<close>

datatype ctx = Background | RequestCtx

datatype level = DebugLevel | InfoLevel | WarnLevel | ErrorLevel

text \<open>A log line is its level and message; the structured fields are left out.\<close>

type_synonym logline = "level \<times> string"

section \<open>The store interface (merkle.Storer)\<close>

text \<open>
  The interface as a table of methods over the state \<open>'s\<close> behind it. \<open>Put\<close> takes a
  \<open>*Node\<close> (an option, \<open>None\<close> the nil pointer), returns the state it leaves and the Go
  \<open>error\<close> (\<open>None\<close> is \<open>nil\<close>); \<open>Get\<close> reads only.
\<close>

record 's Storer =
  Put :: "ctx \<Rightarrow> 's \<Rightarrow> Node option \<Rightarrow> 's \<times> error option"
  Get :: "ctx \<Rightarrow> 's \<Rightarrow> string \<Rightarrow> error + Node"

section \<open>The proxy\<close>

record Config =
  ListenAddr :: string
  UpstreamURL :: string
  DBPath :: string

text \<open>
  \<open>Proxy\<close>: its configuration, the store (method table and the state behind it) and what
  the logger has written so far.
\<close>

record 's Proxy =
  config :: Config
  storer :: "'s Storer"
  store :: 's
  logger :: "logline list"

definition log :: "level \<Rightarrow> string \<Rightarrow> 's Proxy \<Rightarrow> 's Proxy" where
  "log l m p = p\<lparr>logger := logger p @ [(l, m)]\<rparr>"

section \<open>Conversation recorder\<close>

text \<open>
  The \<open>for _, msg := range req.Messages\<close> loop of \<open>storeConversationTurn\<close>, with the loop
  variable \<open>parent\<close> as an argument. It returns the proxy it leaves and either the error
  that ended it or the last \<open>parent\<close>.
\<close>

fun storeMessages ::
  "hasher \<Rightarrow> ctx \<Rightarrow> string \<Rightarrow> Message list \<Rightarrow> Node option \<Rightarrow> 's Proxy
     \<Rightarrow> 's Proxy \<times> (error + Node option)" where
  "storeMessages H c model [] parent p = (p, Inr parent)"
| "storeMessages H c model (msg # msgs) parent p =
     (let content = JObj [(''type'', JStr ''message''),
                          (''role'', JStr (Role msg)),
                          (''content'', JStr (Text msg)),
                          (''model'', JStr model)];
          node = NewNode H content parent
      in case Put (storer p) c (store p) (Some node) of
           (s, Some err) \<Rightarrow> (p\<lparr>store := s\<rparr>, Inl (Wrap ''storing message node'' err))
         | (s, None) \<Rightarrow>
             storeMessages H c model msgs (Some node)
               (log DebugLevel ''stored message in DAG'' (p\<lparr>store := s\<rparr>)))"

text \<open>
  \<open>storeConversationTurn\<close>; the Go result \<open>("", err)\<close> is \<open>Inl err\<close> and \<open>(hash, nil)\<close> is
  \<open>Inr hash\<close>.
\<close>

definition storeConversationTurn ::
  "hasher \<Rightarrow> 's Proxy \<Rightarrow> ctx \<Rightarrow> ChatRequest \<Rightarrow> ChatResponse \<Rightarrow> 's Proxy \<times> (error + string)" where
  "storeConversationTurn H p c req resp =
     (case storeMessages H c (req_Model req) (req_Messages req) None p of
        (p1, Inl err) \<Rightarrow> (p1, Inl err)
      | (p1, Inr parent) \<Rightarrow>
          (let responseContent =
                 JObj [(''type'', JStr ''message''),
                       (''role'', JStr (Role (resp_Message resp))),
                       (''content'', JStr (Text (resp_Message resp))),
                       (''model'', JStr (resp_Model resp)),
                       (''metrics'', JObj
                          [(''total_duration_ns'', JNum (sint (resp_TotalDuration resp))),
                           (''prompt_eval_count'', JNum (sint (resp_PromptEvalCount resp))),
                           (''prompt_eval_duration_ns'',
                              JNum (sint (resp_PromptEvalDuration resp))),
                           (''eval_count'', JNum (sint (resp_EvalCount resp))),
                           (''eval_duration_ns'', JNum (sint (resp_EvalDuration resp)))])];
               responseNode = NewNode H responseContent parent
           in case Put (storer p1) c (store p1) (Some responseNode) of
                (s, Some err) \<Rightarrow> (p1\<lparr>store := s\<rparr>, Inl (Wrap ''storing response node'' err))
              | (s, None) \<Rightarrow>
                  (log DebugLevel ''stored response in DAG'' (p1\<lparr>store := s\<rparr>),
                   Inr (Hash responseNode))))"

section \<open>HTTP towards the upstream and towards the client\<close>

text \<open>
  A response body (\<open>io.ReadCloser\<close>) by what its two readers observe: \<open>io.ReadAll\<close>
  gives bytes and an error; a \<open>bufio.Scanner\<close> over it gives the successive values of
  \<open>scanner.Bytes()\<close> while \<open>Scan()\<close> is true, then \<open>scanner.Err()\<close>.
\<close>

record ReadCloser =
  ReadAll :: "string \<times> error option"
  Tokens :: "string list"
  ScanErr :: "error option"

record HttpRequest =
  Ctx :: ctx
  Method :: string
  URL :: string
  ReqBody :: string
  Header :: "(string \<times> string) list"

record HttpResponse =
  StatusCode :: int
  Body :: ReadCloser

definition Header_Set :: "string \<Rightarrow> string \<Rightarrow> HttpRequest \<Rightarrow> HttpRequest" where
  "Header_Set k v r = r\<lparr>Header := (k, v) # filter (\<lambda>kv. fst kv \<noteq> k) (Header r)\<rparr>"

text \<open>
  The library calls of the proxy whose results depend on data outside the program are
  parameters: \<open>encoding/json\<close> on the chat types (\<open>c.JSON\<close> marshals what it is given) and
  \<open>net/http\<close>.
\<close>

record lib =
  Marshal_ChatRequest :: "ChatRequest \<Rightarrow> error + string"
  Marshal_ChatResponse :: "ChatResponse \<Rightarrow> string"
  Marshal_Node :: "Node \<Rightarrow> string"
  Unmarshal_ChatRequest :: "string \<Rightarrow> error + ChatRequest"
  Unmarshal_ChatResponse :: "string \<Rightarrow> error + ChatResponse"
  Unmarshal_StreamChunk :: "string \<Rightarrow> error + StreamChunk"
  http_NewRequest :: "ctx \<Rightarrow> string \<Rightarrow> string \<Rightarrow> string \<Rightarrow> error + HttpRequest"
  http_Do :: "HttpRequest \<Rightarrow> error + HttpResponse"

text \<open>
  What the client is sent: the status, the headers the handler sets, and the body, either
  whole or as the segments a streaming handler flushed, in order.
\<close>

datatype payload = Bytes string | Streamed "string list"

record Reply =
  Status :: int
  Headers :: "(string \<times> string) list"
  Payload :: payload

definition StatusOK :: int where "StatusOK = 200"
definition StatusBadRequest :: int where "StatusBadRequest = 400"
definition StatusNotFound :: int where "StatusNotFound = 404"
definition StatusInternalServerError :: int where "StatusInternalServerError = 500"
definition StatusBadGateway :: int where "StatusBadGateway = 502"

text \<open>
  \<open>json.Marshal(llm.ErrorResponse{Error: msg})\<close> for the messages the proxy uses, none of
  which has a character that JSON escapes.
\<close>

definition ErrorResponse_JSON :: "string \<Rightarrow> string" where
  \<open>ErrorResponse_JSON msg = ''{"error":"'' @ msg @ ''"}''\<close>

text \<open>\<open>c.Status(code).JSON(v)\<close>, given the marshalled \<open>v\<close>.\<close>

definition JSON_reply :: "int \<Rightarrow> string \<Rightarrow> Reply" where
  "JSON_reply code body =
     \<lparr>Status = code, Headers = [(''Content-Type'', ''application/json'')],
      Payload = Bytes body\<rparr>"

text \<open>
  \<open>bufio.Writer\<close> towards the client: \<open>Write\<close> buffers, \<open>Flush\<close> passes the buffered
  bytes on as one segment (nothing when the buffer is empty). Both results are ignored
  by the proxy.
\<close>

record Writer =
  buffered :: string
  flushed :: "string list"

definition Write :: "string \<Rightarrow> Writer \<Rightarrow> Writer" where
  "Write bs w = w\<lparr>buffered := buffered w @ bs\<rparr>"

definition Flush :: "Writer \<Rightarrow> Writer" where
  "Flush w = (if buffered w = [] then w
              else w\<lparr>flushed := flushed w @ [buffered w], buffered := []\<rparr>)"

section \<open>Streaming proxy path\<close>

text \<open>The variables of the stream writer's closure.\<close>

record 's stream =
  st_proxy :: "'s Proxy"
  st_w :: Writer
  fullContent :: string
  finalResp :: "ChatResponse option"

text \<open>The \<open>for scanner.Scan()\<close> loop of \<open>handleStreamingChat\<close>, over the scanner's lines.\<close>

fun streamLoop :: "lib \<Rightarrow> string list \<Rightarrow> 's stream \<Rightarrow> 's stream" where
  "streamLoop L [] st = st"
| "streamLoop L (line # rest) st =
     (if length line = 0 then streamLoop L rest st
      else case Unmarshal_StreamChunk L line of
        Inl err \<Rightarrow>
          streamLoop L rest
            (st\<lparr>st_proxy := log WarnLevel ''failed to parse chunk'' (st_proxy st)\<rparr>)
      | Inr chunk \<Rightarrow>
          (let st = st\<lparr>fullContent := fullContent st @ Text (chunk_Message chunk)\<rparr>;
               st = st\<lparr>st_proxy := log DebugLevel ''streaming chunk'' (st_proxy st)\<rparr>;
               st = st\<lparr>st_w := Flush (Write [CHR 0x0A] (Write line (st_w st)))\<rparr>;
               st = (if chunk_Done chunk
                     then st\<lparr>finalResp := Some
                            \<lparr>resp_Model = chunk_Model chunk,
                             resp_CreatedAt = chunk_CreatedAt chunk,
                             resp_Message =
                               \<lparr>Role = ''assistant'', Text = fullContent st, Images = []\<rparr>,
                             resp_Done = True,
                             resp_TotalDuration = chunk_TotalDuration chunk,
                             resp_LoadDuration = chunk_LoadDuration chunk,
                             resp_PromptEvalCount = chunk_PromptEvalCount chunk,
                             resp_PromptEvalDuration = chunk_PromptEvalDuration chunk,
                             resp_EvalCount = chunk_EvalCount chunk,
                             resp_EvalDuration = chunk_EvalDuration chunk,
                             resp_Context = []\<rparr>\<rparr>
                     else st)
           in streamLoop L rest st))"

text \<open>
  The function given to \<open>SetBodyStreamWriter\<close>: the loop, the scanner's error, then the
  recorder under \<open>context.Background()\<close>.
\<close>

definition streamWriter ::
  "hasher \<Rightarrow> lib \<Rightarrow> 's Proxy \<Rightarrow> ChatRequest \<Rightarrow> ReadCloser \<Rightarrow> Writer \<Rightarrow> 's Proxy \<times> Writer" where
  "streamWriter H L p req body w =
     (let st = streamLoop L (Tokens body)
                 \<lparr>st_proxy = p, st_w = w, fullContent = [], finalResp = None\<rparr>;
          p = (case ScanErr body of
                 Some err \<Rightarrow> log ErrorLevel ''error reading stream'' (st_proxy st)
               | None \<Rightarrow> st_proxy st)
      in case finalResp st of
           None \<Rightarrow> (p, st_w st)
         | Some fr \<Rightarrow>
             (let p = log DebugLevel ''streaming complete'' p
              in case storeConversationTurn H p Background req fr of
                   (p, Inl err) \<Rightarrow> (log ErrorLevel ''failed to store conversation'' p, st_w st)
                 | (p, Inr headHash) \<Rightarrow> (log InfoLevel ''conversation stored'' p, st_w st)))"

definition handleStreamingChat ::
  "hasher \<Rightarrow> lib \<Rightarrow> 's Proxy \<Rightarrow> ChatRequest \<Rightarrow> 's Proxy \<times> Reply" where
  "handleStreamingChat H L p req =
     (case Marshal_ChatRequest L req of
        Inl err \<Rightarrow>
          (log ErrorLevel ''failed to marshal request'' p,
           JSON_reply StatusInternalServerError (ErrorResponse_JSON ''internal error''))
      | Inr reqBody \<Rightarrow>
          (let upstreamURL = UpstreamURL (config p) @ ''/api/chat''
           in case http_NewRequest L RequestCtx ''POST'' upstreamURL reqBody of
                Inl err \<Rightarrow>
                  (log ErrorLevel ''failed to create upstream request'' p,
                   JSON_reply StatusInternalServerError (ErrorResponse_JSON ''internal error''))
              | Inr httpReq \<Rightarrow>
                  (let httpReq = Header_Set ''Content-Type'' ''application/json'' httpReq;
                       p = log DebugLevel ''forwarding streaming request to upstream'' p
                   in case http_Do L httpReq of
                        Inl err \<Rightarrow>
                          (log ErrorLevel ''upstream request failed'' p,
                           JSON_reply StatusBadGateway
                             (ErrorResponse_JSON ''upstream request failed''))
                      | Inr httpResp \<Rightarrow>
                          if StatusCode httpResp \<noteq> StatusOK
                          then (let body = fst (ReadAll (Body httpResp))
                                in (log ErrorLevel ''upstream returned error'' p,
                                    JSON_reply (StatusCode httpResp)
                                      (ErrorResponse_JSON ''upstream error'')))
                          else (case streamWriter H L p req (Body httpResp)
                                       \<lparr>buffered = [], flushed = []\<rparr> of
                                  (p, w) \<Rightarrow>
                                    (p, \<lparr>Status = StatusOK,
                                         Headers = [(''Content-Type'', ''application/x-ndjson''),
                                                    (''Transfer-Encoding'', ''chunked'')],
                                         Payload = Streamed (flushed w)\<rparr>)))))"

section \<open>Non-streaming proxy path\<close>

text \<open>
  \<open>forwardRequest\<close> writes \<open>req.Stream\<close> through the pointer, so the request it leaves is
  part of its result.
\<close>

definition forwardRequest ::
  "lib \<Rightarrow> 's Proxy \<Rightarrow> ChatRequest \<Rightarrow> 's Proxy \<times> ChatRequest \<times> (error + ChatResponse)" where
  "forwardRequest L p req =
     (let streaming = False;
          req = req\<lparr>req_Stream := Some streaming\<rparr>
      in case Marshal_ChatRequest L req of
           Inl err \<Rightarrow> (p, req, Inl (Wrap ''marshal request'' err))
         | Inr reqBody \<Rightarrow>
             (let upstreamURL = UpstreamURL (config p) @ ''/api/chat'';
                  p = log DebugLevel ''forwarding request to upstream'' p
              in case http_NewRequest L Background ''POST'' upstreamURL reqBody of
                   Inl err \<Rightarrow> (p, req, Inl (Wrap ''create request'' err))
                 | Inr httpReq \<Rightarrow>
                     (let httpReq = Header_Set ''Content-Type'' ''application/json'' httpReq
                      in case http_Do L httpReq of
                           Inl err \<Rightarrow> (p, req, Inl (Wrap ''do request'' err))
                         | Inr httpResp \<Rightarrow>
                             (case ReadAll (Body httpResp) of
                                (body, Some err) \<Rightarrow> (p, req, Inl (Wrap ''read response'' err))
                              | (body, None) \<Rightarrow>
                                  if StatusCode httpResp \<noteq> StatusOK
                                  then (p, req,
                                        Inl (ErrUpstreamStatus (StatusCode httpResp) body))
                                  else (case Unmarshal_ChatResponse L body of
                                          Inl err \<Rightarrow>
                                            (p, req, Inl (Wrap ''unmarshal response'' err))
                                        | Inr resp \<Rightarrow> (p, req, Inr resp))))))"

definition handleNonStreamingChat ::
  "hasher \<Rightarrow> lib \<Rightarrow> 's Proxy \<Rightarrow> ChatRequest \<Rightarrow> 's Proxy \<times> Reply" where
  "handleNonStreamingChat H L p req =
     (case forwardRequest L p req of
        (p, req, Inl err) \<Rightarrow>
          (log ErrorLevel ''failed to forward request'' p,
           JSON_reply StatusBadGateway (ErrorResponse_JSON ''upstream request failed''))
      | (p, req, Inr resp) \<Rightarrow>
          (let p = log DebugLevel ''received response from upstream'' p;
               p = (case storeConversationTurn H p RequestCtx req resp of
                      (p, Inl err) \<Rightarrow> log ErrorLevel ''failed to store conversation'' p
                    | (p, Inr headHash) \<Rightarrow> log InfoLevel ''conversation stored'' p)
           in (p, JSON_reply StatusOK (Marshal_ChatResponse L resp))))"

definition handleChat :: "hasher \<Rightarrow> lib \<Rightarrow> 's Proxy \<Rightarrow> string \<Rightarrow> 's Proxy \<times> Reply" where
  "handleChat H L p body =
     (case Unmarshal_ChatRequest L body of
        Inl err \<Rightarrow>
          (log ErrorLevel ''failed to parse request'' p,
           JSON_reply StatusBadRequest (ErrorResponse_JSON ''invalid request body''))
      | Inr req \<Rightarrow>
          (let p = log DebugLevel ''received chat request'' p;
               streaming = (req_Stream req = None \<or> req_Stream req = Some True)
           in if streaming then handleStreamingChat H L p req
              else handleNonStreamingChat H L p req))"

section \<open>Inspection: a node by its hash\<close>

text \<open>\<open>handleGetNode\<close>, given the route parameter \<open>c.Params("hash")\<close>.\<close>

definition handleGetNode :: "lib \<Rightarrow> 's Proxy \<Rightarrow> string \<Rightarrow> Reply" where
  "handleGetNode L p hash =
     (if hash = ''''
      then JSON_reply StatusBadRequest (ErrorResponse_JSON ''hash parameter required'')
      else case Get (storer p) RequestCtx (store p) hash of
             Inl err \<Rightarrow> JSON_reply StatusNotFound (ErrorResponse_JSON ''node not found'')
           | Inr node \<Rightarrow> JSON_reply StatusOK (Marshal_Node L node))"

section \<open>The in-memory store\<close>

text \<open>
  Modelled from the spec: the in-memory backend (\<open>NewMemoryStorer\<close>) is implemented outside
  the files at hand. The spec gives it as a mapping from hash to node guarded by a lock,
  with \<open>put(node) \<rightarrow> is_new\<close> inserting if absent and returning \<open>false\<close> without error if
  the hash is present, \<open>get(hash) \<rightarrow> Node | NotFound\<close>, \<open>has(hash)\<close> and \<open>list()\<close>. The
  store's tests reject a nil node with an error that mentions \<open>nil node\<close>. The mapping is the
  list of its entries in insertion order; the lock makes each operation one step.
\<close>

type_synonym MemoryStorer = "(string \<times> Node) list"

definition NewMemoryStorer :: MemoryStorer where
  "NewMemoryStorer = []"

definition mem_Has :: "MemoryStorer \<Rightarrow> string \<Rightarrow> bool" where
  "mem_Has s h = (map_of s h \<noteq> None)"

definition mem_Put :: "MemoryStorer \<Rightarrow> Node option \<Rightarrow> MemoryStorer \<times> (error + bool)" where
  "mem_Put s node =
     (case node of
        None \<Rightarrow> (s, Inl (Err ''nil node''))
      | Some n \<Rightarrow> if mem_Has s (Hash n) then (s, Inr False)
                  else (s @ [(Hash n, n)], Inr True))"

definition mem_Get :: "MemoryStorer \<Rightarrow> string \<Rightarrow> error + Node" where
  "mem_Get s h = (case map_of s h of None \<Rightarrow> Inl (ErrNotFound h) | Some n \<Rightarrow> Inr n)"

definition mem_List :: "MemoryStorer \<Rightarrow> Node list" where
  "mem_List s = map snd s"

text \<open>
  Puts by any number of callers, in the order the lock lets them through; a failed put
  (a nil node) leaves the store as it was.
\<close>

fun mem_Puts :: "MemoryStorer \<Rightarrow> Node option list \<Rightarrow> MemoryStorer" where
  "mem_Puts s [] = s"
| "mem_Puts s (node # nodes) = mem_Puts (fst (mem_Put s node)) nodes"

text \<open>The in-memory store behind the \<open>Storer\<close> interface of the proxy.\<close>

definition memStorer :: "MemoryStorer Storer" where
  "memStorer =
     \<lparr>Put = (\<lambda>c s node. case mem_Put s node of
                            (s', Inl err) \<Rightarrow> (s', Some err)
                          | (s', Inr is_new) \<Rightarrow> (s', None)),
      Get = (\<lambda>c s h. mem_Get s h)\<rparr>"

section \<open>The recorder's chain, as the spec describes it\<close>

text \<open>
  The nodes of section 4.3 of the spec, without the store: one node per request message,
  each the child of the one before, then the response node.
\<close>

fun message_nodes :: "hasher \<Rightarrow> string \<Rightarrow> Message list \<Rightarrow> Node option \<Rightarrow> Node list" where
  "message_nodes H model [] parent = []"
| "message_nodes H model (m # ms) parent =
     (let n = NewNode H (JObj [(''type'', JStr ''message''),
                               (''role'', JStr (Role m)),
                               (''content'', JStr (Text m)),
                               (''model'', JStr model)]) parent
      in n # message_nodes H model ms (Some n))"

definition turn_nodes :: "hasher \<Rightarrow> ChatRequest \<Rightarrow> ChatResponse \<Rightarrow> Node list" where
  "turn_nodes H req resp =
     (let ms = message_nodes H (req_Model req) (req_Messages req) None;
          head = NewNode H
            (JObj [(''type'', JStr ''message''),
                   (''role'', JStr (Role (resp_Message resp))),
                   (''content'', JStr (Text (resp_Message resp))),
                   (''model'', JStr (resp_Model resp)),
                   (''metrics'', JObj
                      [(''total_duration_ns'', JNum (sint (resp_TotalDuration resp))),
                       (''prompt_eval_count'', JNum (sint (resp_PromptEvalCount resp))),
                       (''prompt_eval_duration_ns'', JNum (sint (resp_PromptEvalDuration resp))),
                       (''eval_count'', JNum (sint (resp_EvalCount resp))),
                       (''eval_duration_ns'', JNum (sint (resp_EvalDuration resp)))])])
            (if ms = [] then None else Some (last ms))
      in ms @ [head])"

text \<open>Putting a list of nodes in order, up to the first put that fails.\<close>

fun putAll :: "'s Storer \<Rightarrow> ctx \<Rightarrow> 's \<Rightarrow> Node list \<Rightarrow> 's \<times> error option" where
  "putAll S c s [] = (s, None)"
| "putAll S c s (n # ns) =
     (case Put S c s (Some n) of
        (s', None) \<Rightarrow> putAll S c s' ns
      | (s', Some err) \<Rightarrow> (s', Some err))"

text \<open>A field of a JSON object.\<close>

definition json_field :: "string \<Rightarrow> json \<Rightarrow> json option" where
  "json_field k j = (case j of JObj kvs \<Rightarrow> map_of kvs k | _ \<Rightarrow> None)"

text \<open>
  The log lines that follow a call of the recorder in the two chat handlers: one per call.
\<close>

definition recorder_outcomes :: "logline list \<Rightarrow> nat" where
  "recorder_outcomes lg =
     length (filter (\<lambda>e. e = (ErrorLevel, ''failed to store conversation'')
                        \<or> e = (InfoLevel, ''conversation stored'')) lg)"

section \<open>Predicates of the statements\<close>

text \<open>
  What holds of every state of the in-memory store: no hash is stored twice, and every
  entry is stored under its node's hash.
\<close>

definition mem_wf :: "MemoryStorer \<Rightarrow> bool" where
  "mem_wf s = (distinct (map fst s) \<and> list_all (\<lambda>kr. Hash (snd kr) = fst kr) s)"

text \<open>
  A line of the upstream body that the streaming loop passes on: not empty, and a stream
  chunk to the decoder. A line that ends the turn: one whose chunk has \<open>done\<close> set.
\<close>

definition forwarded :: "lib \<Rightarrow> string \<Rightarrow> bool" where
  "forwarded L l = (l \<noteq> [] \<and> \<not> isl (Unmarshal_StreamChunk L l))"

definition done_line :: "lib \<Rightarrow> string \<Rightarrow> bool" where
  "done_line L l =
     (l \<noteq> [] \<and> (case Unmarshal_StreamChunk L l of Inl err \<Rightarrow> False
                                                  | Inr chunk \<Rightarrow> chunk_Done chunk))"

text \<open>
  The upstream's answer on the streaming path: the response \<open>httpClient.Do\<close> returns for
  the request \<open>handleStreamingChat\<close> builds, if marshalling, building and sending succeed.
\<close>

definition streaming_upstream :: "lib \<Rightarrow> Config \<Rightarrow> ChatRequest \<Rightarrow> HttpResponse option" where
  "streaming_upstream L cfg req =
     (case Marshal_ChatRequest L req of
        Inl err \<Rightarrow> None
      | Inr reqBody \<Rightarrow>
          (case http_NewRequest L RequestCtx ''POST'' (UpstreamURL cfg @ ''/api/chat'') reqBody of
             Inl err \<Rightarrow> None
           | Inr httpReq \<Rightarrow>
               (case http_Do L (Header_Set ''Content-Type'' ''application/json'' httpReq) of
                  Inl err \<Rightarrow> None
                | Inr httpResp \<Rightarrow> Some httpResp)))"

section \<open>Stand-ins used to run the model\<close>

text \<open>
  A hasher whose digest is the first 32 bytes of its input, padded with zeros, over a
  marshaller that writes the parent hash only.
\<close>

definition pad_digest :: "byte list \<Rightarrow> digest" where
  "pad_digest bs = Abs_digest (take 32 (bs @ replicate 32 0))"

definition demo_hasher :: hasher where
  "demo_hasher =
     \<lparr>json_Marshal = (\<lambda>i. map (\<lambda>ch. of_char ch) (i_Parent i)),
      sha256_Sum256 = pad_digest\<rparr>"

text \<open>A store that refuses every put, as a database that cannot be written does.\<close>

definition lockedStorer :: "MemoryStorer Storer" where
  "lockedStorer =
     \<lparr>Put = (\<lambda>c s node. (s, Some (Err ''database is locked''))),
      Get = (\<lambda>c s h. Inl (Err ''database is locked''))\<rparr>"

text \<open>A store that keeps every node it is given, in order.\<close>

definition recStorer :: "Node list Storer" where
  "recStorer =
     \<lparr>Put = (\<lambda>c s node. case node of None \<Rightarrow> (s, Some (Err ''nil node''))
                                     | Some n \<Rightarrow> (s @ [n], None)),
      Get = (\<lambda>c s h. case find (\<lambda>n. Hash n = h) s of
                         None \<Rightarrow> Inl (ErrNotFound h) | Some n \<Rightarrow> Inr n)\<rparr>"

definition demo_config :: Config where
  "demo_config = \<lparr>ListenAddr = '':8080'', UpstreamURL = ''http://localhost:11434'', DBPath = ''''\<rparr>"

definition demo_proxy :: "'s Storer \<Rightarrow> 's \<Rightarrow> 's Proxy" where
  "demo_proxy S s = \<lparr>config = demo_config, storer = S, store = s, logger = []\<rparr>"

definition user_msg :: Message where
  "user_msg = \<lparr>Role = ''user'', Text = ''What is 2+2?'', Images = []\<rparr>"

definition demo_req :: ChatRequest where
  "demo_req =
     \<lparr>req_Model = ''llama2'', req_Messages = [user_msg], req_Stream = None,
      req_Format = '''', req_Options = None, req_KeepAlive = ''''\<rparr>"

definition demo_resp :: ChatResponse where
  "demo_resp =
     \<lparr>resp_Model = ''llama2'', resp_CreatedAt = ''2024-01-01T00:00:00Z'',
      resp_Message = \<lparr>Role = ''assistant'', Text = ''4'', Images = []\<rparr>,
      resp_Done = True, resp_TotalDuration = 9, resp_LoadDuration = 1,
      resp_PromptEvalCount = 5, resp_PromptEvalDuration = 2, resp_EvalCount = 1,
      resp_EvalDuration = 3, resp_Context = []\<rparr>"

text \<open>Two stream lines and the chunks a JSON decoder reads from them.\<close>

definition line_part :: string where
  \<open>line_part = ''{"model":"llama2","message":{"role":"tool","content":"fo"},"done":false}''\<close>

definition line_done :: string where
  \<open>line_done = ''{"model":"llama2","message":{"role":"tool","content":"ur"},"done":true}''\<close>

definition chunk_part :: StreamChunk where
  "chunk_part =
     \<lparr>chunk_Model = ''llama2'', chunk_CreatedAt = '''',
      chunk_Message = \<lparr>Role = ''tool'', Text = ''fo'', Images = []\<rparr>,
      chunk_Done = False, chunk_TotalDuration = 0, chunk_LoadDuration = 0,
      chunk_PromptEvalCount = 0, chunk_PromptEvalDuration = 0, chunk_EvalCount = 0,
      chunk_EvalDuration = 0\<rparr>"

definition chunk_done :: StreamChunk where
  "chunk_done =
     \<lparr>chunk_Model = ''llama2'', chunk_CreatedAt = '''',
      chunk_Message = \<lparr>Role = ''tool'', Text = ''ur'', Images = []\<rparr>,
      chunk_Done = True, chunk_TotalDuration = 0, chunk_LoadDuration = 0,
      chunk_PromptEvalCount = 0, chunk_PromptEvalDuration = 0, chunk_EvalCount = 0,
      chunk_EvalDuration = 0\<rparr>"

text \<open>
  Library stand-ins: the decoder knows the two lines above and rejects every other line,
  requests are always built, and the upstream answers every request with \<open>r\<close>.
\<close>

definition demo_lib :: "HttpResponse \<Rightarrow> lib" where
  "demo_lib r =
     \<lparr>Marshal_ChatRequest = (\<lambda>req. Inr (req_Model req)),
      Marshal_ChatResponse = (\<lambda>resp. Text (resp_Message resp)),
      Marshal_Node = (\<lambda>n. Hash n),
      Unmarshal_ChatRequest = (\<lambda>b. Inl (Err ''unexpected end of JSON input'')),
      Unmarshal_ChatResponse =
        (\<lambda>b. if b = ''4'' then Inr demo_resp else Inl (Err ''invalid character'')),
      Unmarshal_StreamChunk =
        (\<lambda>l. if l = line_part then Inr chunk_part
              else if l = line_done then Inr chunk_done
              else Inl (Err ''invalid character'')),
      http_NewRequest =
        (\<lambda>c m u b. Inr \<lparr>Ctx = c, Method = m, URL = u, ReqBody = b, Header = []\<rparr>),
      http_Do = (\<lambda>q. Inr r)\<rparr>"

definition upstream_500 :: HttpResponse where
  "upstream_500 =
     \<lparr>StatusCode = 500,
      Body = \<lparr>ReadAll = (''boom'', None), Tokens = [''boom''], ScanErr = None\<rparr>\<rparr>"

definition upstream_stream :: HttpResponse where
  "upstream_stream =
     \<lparr>StatusCode = 200,
      Body = \<lparr>ReadAll = (line_part @ [CHR 0x0A, CHR 0x0A] @ ''not json'' @ [CHR 0x0A]
                           @ line_done @ [CHR 0x0A], None),
              Tokens = [line_part, '''', ''not json'', line_done], ScanErr = None\<rparr>\<rparr>"

definition upstream_answer :: HttpResponse where
  "upstream_answer =
     \<lparr>StatusCode = 200, Body = \<lparr>ReadAll = (''4'', None), Tokens = [''4''], ScanErr = None\<rparr>\<rparr>"

text \<open>An upstream body that breaks off after its first chunk.\<close>

definition upstream_truncated :: HttpResponse where
  "upstream_truncated =
     \<lparr>StatusCode = 200,
      Body = \<lparr>ReadAll = (line_part @ [CHR 0x0A], Some (Err ''unexpected EOF'')),
              Tokens = [line_part], ScanErr = Some (Err ''unexpected EOF'')\<rparr>\<rparr>"

text \<open>Two nodes with given hashes.\<close>

definition node_a :: Node where
  "node_a = \<lparr>Hash = ''aa'', ParentHash = None, Content = JStr ''identical''\<rparr>"

definition node_b :: Node where
  "node_b = \<lparr>Hash = ''bb'', ParentHash = Some ''aa'', Content = JStr ''child''\<rparr>"

text \<open>The chat response the streaming loop builds from the two lines.\<close>

definition demo_final :: ChatResponse where
  "demo_final =
     \<lparr>resp_Model = ''llama2'', resp_CreatedAt = '''',
      resp_Message = \<lparr>Role = ''assistant'', Text = ''four'', Images = []\<rparr>,
      resp_Done = True, resp_TotalDuration = 0, resp_LoadDuration = 0,
      resp_PromptEvalCount = 0, resp_PromptEvalDuration = 0, resp_EvalCount = 0,
      resp_EvalDuration = 0, resp_Context = []\<rparr>"

section \<open>The line scanner (bufio.Scanner with bufio.ScanLines)\<close>






text \<open>
  Upstream bodies with what a scan of their bytes yields: two chunk lines; and a line of
  65536 bytes before a chunk line.
\<close>

definition upstream_clean :: HttpResponse where
  "upstream_clean =
     \<lparr>StatusCode = 200,
      Body = \<lparr>ReadAll = (line_part @ [CHR 0x0A] @ line_done @ [CHR 0x0A], None),
              Tokens = [line_part, line_done], ScanErr = None\<rparr>\<rparr>"


section \<open>Properties of the hasher\<close>

lemma length_EncodeToString: "length (EncodeToString bs) = 2 * length bs"
  by (induction bs) simp_all

lemma high_nibble_bound: "unat (drop_bit 4 (v :: byte)) < 16"
proof -
  have "unat v < 256"
    using unsigned_less [of v] by simp
  then have "unat v div 16 < 16" by simp
  moreover have "unat (drop_bit 4 v) = drop_bit 4 (unat v)"
    by (rule unat_drop_bit_eq)
  moreover have "drop_bit 4 (unat v) = unat v div 16"
    by (simp add: drop_bit_eq_div)
  ultimately show ?thesis by simp
qed

lemma low_nibble_bound: "unat ((v :: byte) AND 0x0f) < 16"
proof -
  have "v AND 0x0f \<le> 0x0f"
    by (rule word_and_le1)
  then have "unat (v AND 0x0f) \<le> unat (0x0f :: byte)"
    by (simp only: word_le_nat_alt)
  then show ?thesis by simp
qed

lemma hextable_nth: "i < 16 \<Longrightarrow> hextable ! i \<in> set hextable"
  by (rule nth_mem) (simp add: hextable_def)

lemma set_EncodeToString: "set (EncodeToString bs) \<subseteq> set hextable"
  by (induction bs) (simp_all add: hextable_nth high_nibble_bound low_nibble_bound)

lemma length_Rep_digest: "length (Rep_digest d) = 32"
  using Rep_digest [of d] by simp

lemma length_computeHash: "length (computeHash H n) = 64"
  by (simp add: computeHash_def Let_def length_EncodeToString length_Rep_digest)

lemma set_computeHash: "set (computeHash H n) \<subseteq> set hextable"
  by (simp add: computeHash_def Let_def set_EncodeToString)

lemma Hash_NewNode:
  "Hash (NewNode H c p) =
     computeHash H \<lparr>Hash = '''', ParentHash = map_option Hash p, Content = c\<rparr>"
  by (cases p) (simp_all add: NewNode_def Let_def)


lemma Content_NewNode: "Content (NewNode H c p) = c"
  by (cases p) (simp_all add: NewNode_def Let_def)

section \<open>Properties of the recorder\<close>

lemma putAll_append:
  "putAll S c s (xs @ ys) =
     (case putAll S c s xs of (s', None) \<Rightarrow> putAll S c s' ys | (s', Some e) \<Rightarrow> (s', Some e))"
  by (induction xs arbitrary: s) (simp_all split: prod.splits option.splits)

lemma length_message_nodes: "length (message_nodes H model ms parent) = length ms"
  by (induction ms arbitrary: parent) (simp_all add: Let_def)

lemma message_nodes_Nil_iff: "message_nodes H model ms parent = [] \<longleftrightarrow> ms = []"
  by (cases ms) (simp_all add: Let_def)



lemma storeMessages_ok:
  "putAll (storer p) c (store p) (message_nodes H model ms parent) = (s, None) \<Longrightarrow>
   storeMessages H c model ms parent p =
     (p\<lparr>store := s,
        logger := logger p @ replicate (length ms) (DebugLevel, ''stored message in DAG'')\<rparr>,
      Inr (if ms = [] then parent else Some (last (message_nodes H model ms parent))))"
proof (induction ms arbitrary: parent p)
  case Nil
  then show ?case by simp
next
  case (Cons m ms)
  define n where "n = NewNode H (JObj [(''type'', JStr ''message''),
                               (''role'', JStr (Role m)),
                               (''content'', JStr (Text m)),
                               (''model'', JStr model)]) parent"
  from Cons.prems obtain s' where
    put: "Put (storer p) c (store p) (Some n) = (s', None)" and
    rest: "putAll (storer p) c s' (message_nodes H model ms (Some n)) = (s, None)"
    by (auto simp: Let_def n_def split: prod.splits option.splits)
  let ?p = "log DebugLevel ''stored message in DAG'' (p\<lparr>store := s'\<rparr>)"
  have "putAll (storer ?p) c (store ?p) (message_nodes H model ms (Some n)) = (s, None)"
    using rest by (simp add: log_def)
  from Cons.IH [OF this]
  show ?case
    using put
    by (simp add: Let_def n_def [symmetric] log_def message_nodes_Nil_iff
        replicate_append_same)
qed


lemma storeConversationTurn_ok:
  assumes "putAll (storer p) c (store p) (turn_nodes H req resp) = (s, None)"
  shows "store (fst (storeConversationTurn H p c req resp)) = s"
    and "snd (storeConversationTurn H p c req resp) = Inr (Hash (last (turn_nodes H req resp)))"
    and "logger (fst (storeConversationTurn H p c req resp)) =
           logger p @ replicate (length (req_Messages req)) (DebugLevel, ''stored message in DAG'')
             @ [(DebugLevel, ''stored response in DAG'')]"
proof -
  let ?ms = "message_nodes H (req_Model req) (req_Messages req) None"
  from assms obtain s1 where
    a: "putAll (storer p) c (store p) ?ms = (s1, None)" and
    b: "Put (storer p) c s1 (Some (last (turn_nodes H req resp))) = (s, None)"
    by (auto simp: turn_nodes_def Let_def putAll_append split: prod.splits option.splits)
  note sm = storeMessages_ok [OF a]
  have par: "(if req_Messages req = [] then None else Some (last ?ms))
             = (if ?ms = [] then None else Some (last ?ms))"
    by (simp add: message_nodes_Nil_iff)
  show "store (fst (storeConversationTurn H p c req resp)) = s"
    using b by (simp add: storeConversationTurn_def sm par turn_nodes_def Let_def log_def)
  show "snd (storeConversationTurn H p c req resp) = Inr (Hash (last (turn_nodes H req resp)))"
    using b by (simp add: storeConversationTurn_def sm par turn_nodes_def Let_def log_def)
  show "logger (fst (storeConversationTurn H p c req resp)) =
           logger p @ replicate (length (req_Messages req)) (DebugLevel, ''stored message in DAG'')
             @ [(DebugLevel, ''stored response in DAG'')]"
    using b by (simp add: storeConversationTurn_def sm par turn_nodes_def Let_def log_def)
qed

lemma length_turn_nodes: "length (turn_nodes H req resp) = length (req_Messages req) + 1"
  by (simp add: turn_nodes_def Let_def length_message_nodes)





section \<open>The stand-ins, evaluated\<close>









section \<open>Properties of the in-memory store\<close>

lemma mem_Has_iff: "mem_Has s h \<longleftrightarrow> h \<in> fst ` set s"
  by (simp add: mem_Has_def map_of_eq_None_iff)

lemma mem_wf_Put: "mem_wf s \<Longrightarrow> mem_wf (fst (mem_Put s node))"
  by (cases node) (auto simp: mem_wf_def mem_Put_def mem_Has_iff)

lemma mem_wf_Puts: "mem_wf s \<Longrightarrow> mem_wf (mem_Puts s ops)"
  by (induction ops arbitrary: s) (simp_all add: mem_wf_Put)

lemma mem_Has_Put: "mem_Has s h \<Longrightarrow> mem_Has (fst (mem_Put s node)) h"
  by (cases node) (auto simp: mem_Put_def mem_Has_iff)

lemma mem_Has_Puts: "mem_Has s h \<Longrightarrow> mem_Has (mem_Puts s ops) h"
  by (induction ops arbitrary: s) (simp_all add: mem_Has_Put)

lemma mem_Has_after_Put: "mem_Has (fst (mem_Put s (Some n))) (Hash n)"
  by (auto simp: mem_Put_def mem_Has_iff)

lemma mem_Has_Puts_mem: "Some n \<in> set ops \<Longrightarrow> mem_Has (mem_Puts s ops) (Hash n)"
proof (induction ops arbitrary: s)
  case Nil
  then show ?case by simp
next
  case (Cons node ops)
  show ?case
  proof (cases "node = Some n")
    case True
    then show ?thesis
      by (simp add: mem_Has_Puts mem_Has_after_Put)
  next
    case False
    with Cons.prems have "Some n \<in> set ops" by simp
    then show ?thesis by (simp add: Cons.IH)
  qed
qed

lemma mem_wf_count:
  "mem_wf s \<Longrightarrow>
   length (filter (\<lambda>r. Hash r = h) (mem_List s)) = (if mem_Has s h then 1 else 0)"
proof (induction s)
  case Nil
  then show ?case by (simp add: mem_List_def mem_Has_iff)
next
  case (Cons kr s)
  from Cons.prems have wf: "mem_wf s" and k: "Hash (snd kr) = fst kr"
    and fresh: "fst kr \<notin> fst ` set s"
    by (auto simp: mem_wf_def)
  from Cons.IH [OF wf] k fresh show ?case
    by (auto simp: mem_List_def mem_Has_iff filter_map)
qed

lemma mem_wf_New: "mem_wf NewMemoryStorer"
  by (simp add: mem_wf_def NewMemoryStorer_def)

section \<open>Properties of the streaming loop\<close>

lemma recorder_outcomes_append [simp]:
  "recorder_outcomes (xs @ ys) = recorder_outcomes xs + recorder_outcomes ys"
  by (simp add: recorder_outcomes_def)

lemma recorder_outcomes_log:
  "recorder_outcomes (logger (log l m p)) =
     recorder_outcomes (logger p) +
       (if (l, m) = (ErrorLevel, ''failed to store conversation'')
           \<or> (l, m) = (InfoLevel, ''conversation stored'') then 1 else 0)"
  by (simp add: log_def recorder_outcomes_def)

lemma log_fields [simp]:
  "store (log l m p) = store p" "storer (log l m p) = storer p" "config (log l m p) = config p"
  by (simp_all add: log_def)

lemma streamLoop_w:
  "buffered (st_w st) = [] \<Longrightarrow>
   buffered (st_w (streamLoop L lines st)) = []
   \<and> flushed (st_w (streamLoop L lines st)) =
       flushed (st_w st) @ map (\<lambda>l. l @ [CHR 0x0A]) (filter (forwarded L) lines)"
proof (induction lines arbitrary: st)
  case Nil
  then show ?case by simp
next
  case (Cons line rest)
  show ?case
  proof (cases "line = []")
    case True
    with Cons show ?thesis by (simp add: forwarded_def)
  next
    case False
    show ?thesis
    proof (cases "Unmarshal_StreamChunk L line")
      case (Inl err)
      with False Cons show ?thesis by (simp add: forwarded_def)
    next
      case (Inr chunk)
      with False Cons.prems show ?thesis
        by (simp add: Let_def forwarded_def Cons.IH Write_def Flush_def)
    qed
  qed
qed

lemma streamLoop_proxy:
  "store (st_proxy (streamLoop L lines st)) = store (st_proxy st)
   \<and> storer (st_proxy (streamLoop L lines st)) = storer (st_proxy st)
   \<and> config (st_proxy (streamLoop L lines st)) = config (st_proxy st)
   \<and> recorder_outcomes (logger (st_proxy (streamLoop L lines st)))
       = recorder_outcomes (logger (st_proxy st))"
proof (induction lines arbitrary: st)
  case Nil
  then show ?case by simp
next
  case (Cons line rest)
  show ?case
  proof (cases "line = []")
    case True
    with Cons show ?thesis by simp
  next
    case False
    show ?thesis
    proof (cases "Unmarshal_StreamChunk L line")
      case (Inl err)
      with False show ?thesis by (simp add: Cons.IH recorder_outcomes_log)
    next
      case (Inr chunk)
      with False show ?thesis
        by (simp add: Let_def Cons.IH recorder_outcomes_log)
    qed
  qed
qed

lemma streamLoop_final_iff:
  "finalResp (streamLoop L lines st) = None \<longleftrightarrow>
     finalResp st = None \<and> (\<forall>l \<in> set lines. \<not> done_line L l)"
proof (induction lines arbitrary: st)
  case Nil
  then show ?case by simp
next
  case (Cons line rest)
  show ?case
  proof (cases "line = []")
    case True
    with Cons show ?thesis by (simp add: done_line_def)
  next
    case False
    show ?thesis
    proof (cases "Unmarshal_StreamChunk L line")
      case (Inl err)
      with False show ?thesis by (simp add: Cons.IH done_line_def)
    next
      case (Inr chunk)
      with False show ?thesis
        by (auto simp: Let_def Cons.IH done_line_def)
    qed
  qed
qed

lemma streamLoop_final_role:
  "finalResp (streamLoop L lines st) = Some fr \<Longrightarrow>
   finalResp st = Some fr \<or> Role (resp_Message fr) = ''assistant''"
proof (induction lines arbitrary: st)
  case Nil
  then show ?case by simp
next
  case (Cons line rest)
  show ?case
  proof (cases "line = []")
    case True
    with Cons show ?thesis by simp
  next
    case False
    show ?thesis
    proof (cases "Unmarshal_StreamChunk L line")
      case (Inl err)
      with False Cons.prems Cons.IH [of "st\<lparr>st_proxy :=
          log WarnLevel ''failed to parse chunk'' (st_proxy st)\<rparr>"]
      show ?thesis by simp
    next
      case (Inr chunk)
      with False Cons.prems have
        "finalResp (streamLoop L rest
           (let st = st\<lparr>fullContent := fullContent st @ Text (chunk_Message chunk)\<rparr>;
               st = st\<lparr>st_proxy := log DebugLevel ''streaming chunk'' (st_proxy st)\<rparr>;
               st = st\<lparr>st_w := Flush (Write [CHR 0x0A] (Write line (st_w st)))\<rparr>;
               st = (if chunk_Done chunk
                     then st\<lparr>finalResp := Some
                            \<lparr>resp_Model = chunk_Model chunk,
                             resp_CreatedAt = chunk_CreatedAt chunk,
                             resp_Message =
                               \<lparr>Role = ''assistant'', Text = fullContent st, Images = []\<rparr>,
                             resp_Done = True,
                             resp_TotalDuration = chunk_TotalDuration chunk,
                             resp_LoadDuration = chunk_LoadDuration chunk,
                             resp_PromptEvalCount = chunk_PromptEvalCount chunk,
                             resp_PromptEvalDuration = chunk_PromptEvalDuration chunk,
                             resp_EvalCount = chunk_EvalCount chunk,
                             resp_EvalDuration = chunk_EvalDuration chunk,
                             resp_Context = []\<rparr>\<rparr>
                     else st)
            in st)) = Some fr"
        by (simp add: Let_def)
      from Cons.IH [OF this] show ?thesis
        by (auto simp: Let_def split: if_splits)
    qed
  qed
qed

section \<open>Properties of the streaming handler\<close>

lemma storeMessages_frame:
  "storer (fst (storeMessages H c model ms parent p)) = storer p
   \<and> config (fst (storeMessages H c model ms parent p)) = config p
   \<and> recorder_outcomes (logger (fst (storeMessages H c model ms parent p)))
       = recorder_outcomes (logger p)"
proof (induction ms arbitrary: parent p)
  case Nil
  then show ?case by simp
next
  case (Cons m ms)
  show ?case
    by (simp add: Let_def Cons.IH recorder_outcomes_log split: prod.splits option.splits)
qed

lemma storeConversationTurn_frame:
  "storer (fst (storeConversationTurn H p c req resp)) = storer p
   \<and> config (fst (storeConversationTurn H p c req resp)) = config p
   \<and> recorder_outcomes (logger (fst (storeConversationTurn H p c req resp)))
       = recorder_outcomes (logger p)"
proof -
  obtain p1 r where sm: "storeMessages H c (req_Model req) (req_Messages req) None p = (p1, r)"
    by (cases "storeMessages H c (req_Model req) (req_Messages req) None p")
  from storeMessages_frame [of H c "req_Model req" "req_Messages req" None p] sm
  have f: "storer p1 = storer p" "config p1 = config p"
    "recorder_outcomes (logger p1) = recorder_outcomes (logger p)"
    by simp_all
  show ?thesis
    by (cases r)
      (simp_all add: storeConversationTurn_def sm f Let_def recorder_outcomes_log
        split: prod.splits option.splits)
qed

lemma streamWriter_w:
  "snd (streamWriter H L p req body w) =
     st_w (streamLoop L (Tokens body)
       \<lparr>st_proxy = p, st_w = w, fullContent = [], finalResp = None\<rparr>)"
  by (simp add: streamWriter_def Let_def split: option.splits prod.splits sum.splits)

lemma streamWriter_flushed:
  "flushed (snd (streamWriter H L p req body \<lparr>buffered = [], flushed = []\<rparr>)) =
     map (\<lambda>l. l @ [CHR 0x0A]) (filter (forwarded L) (Tokens body))
   \<and> buffered (snd (streamWriter H L p req body \<lparr>buffered = [], flushed = []\<rparr>)) = []"
  using streamLoop_w [of "\<lparr>st_proxy = p, st_w = \<lparr>buffered = [], flushed = []\<rparr>,
      fullContent = [], finalResp = None\<rparr>" L "Tokens body"]
  by (simp add: streamWriter_w)

lemma streamWriter_not_done:
  assumes "\<forall>l \<in> set (Tokens body). \<not> done_line L l"
  shows "store (fst (streamWriter H L p req body w)) = store p"
    and "recorder_outcomes (logger (fst (streamWriter H L p req body w)))
           = recorder_outcomes (logger p)"
proof -
  let ?st = "streamLoop L (Tokens body)
       \<lparr>st_proxy = p, st_w = w, fullContent = [], finalResp = None\<rparr>"
  from assms have fin: "finalResp ?st = None"
    by (simp add: streamLoop_final_iff)
  note fr = streamLoop_proxy [of L "Tokens body"
      "\<lparr>st_proxy = p, st_w = w, fullContent = [], finalResp = None\<rparr>"]
  show "store (fst (streamWriter H L p req body w)) = store p"
    using fr by (simp add: streamWriter_def Let_def fin split: option.splits)
  show "recorder_outcomes (logger (fst (streamWriter H L p req body w)))
           = recorder_outcomes (logger p)"
    using fr by (simp add: streamWriter_def Let_def fin recorder_outcomes_log split: option.splits)
qed

lemma streamWriter_done:
  assumes "\<exists>l \<in> set (Tokens body). done_line L l"
  shows "\<exists>fr p1. Role (resp_Message fr) = ''assistant''
           \<and> storer p1 = storer p \<and> store p1 = store p \<and> config p1 = config p
           \<and> store (fst (streamWriter H L p req body w))
               = store (fst (storeConversationTurn H p1 Background req fr))
           \<and> recorder_outcomes (logger (fst (streamWriter H L p req body w)))
               = recorder_outcomes (logger p) + 1"
proof -
  let ?st = "streamLoop L (Tokens body)
       \<lparr>st_proxy = p, st_w = w, fullContent = [], finalResp = None\<rparr>"
  from assms obtain fr where fin: "finalResp ?st = Some fr"
    using streamLoop_final_iff [of L "Tokens body"
      "\<lparr>st_proxy = p, st_w = w, fullContent = [], finalResp = None\<rparr>"]
    by auto
  from streamLoop_final_role [OF fin] have role: "Role (resp_Message fr) = ''assistant''"
    by simp
  note fr = streamLoop_proxy [of L "Tokens body"
      "\<lparr>st_proxy = p, st_w = w, fullContent = [], finalResp = None\<rparr>"]
  define pe where "pe = (case ScanErr body of
                 Some err \<Rightarrow> log ErrorLevel ''error reading stream'' (st_proxy ?st)
               | None \<Rightarrow> st_proxy ?st)"
  define p1 where "p1 = log DebugLevel ''streaming complete'' pe"
  have p1: "storer p1 = storer p" "store p1 = store p" "config p1 = config p"
    "recorder_outcomes (logger p1) = recorder_outcomes (logger p)"
    using fr by (simp_all add: p1_def pe_def recorder_outcomes_log split: option.splits)
  obtain p2 r where sct: "storeConversationTurn H p1 Background req fr = (p2, r)"
    by (cases "storeConversationTurn H p1 Background req fr")
  from storeConversationTurn_frame [of H p1 Background req fr] sct p1
  have p2: "recorder_outcomes (logger p2) = recorder_outcomes (logger p)"
    by simp
  have sw: "streamWriter H L p req body w =
      (case r of Inl err \<Rightarrow> (log ErrorLevel ''failed to store conversation'' p2, st_w ?st)
       | Inr headHash \<Rightarrow> (log InfoLevel ''conversation stored'' p2, st_w ?st))"
    by (simp add: streamWriter_def Let_def fin pe_def [symmetric] p1_def [symmetric] sct)
  have "store (fst (streamWriter H L p req body w))
               = store (fst (storeConversationTurn H p1 Background req fr))"
    by (cases r) (simp_all add: sw sct)
  moreover have "recorder_outcomes (logger (fst (streamWriter H L p req body w)))
               = recorder_outcomes (logger p) + 1"
    by (cases r) (simp_all add: sw recorder_outcomes_log p2)
  ultimately show ?thesis
    using role p1 by blast
qed

lemma handleStreamingChat_no_upstream:
  assumes "streaming_upstream L (config p) req = None"
  shows "store (fst (handleStreamingChat H L p req)) = store p"
    and "recorder_outcomes (logger (fst (handleStreamingChat H L p req)))
           = recorder_outcomes (logger p)"
  using assms
  by (simp_all add: handleStreamingChat_def streaming_upstream_def Let_def recorder_outcomes_log
      split: sum.splits)

lemma streaming_upstream_SomeD:
  assumes "streaming_upstream L cfg req = Some r"
  obtains b q where "Marshal_ChatRequest L req = Inr b"
    and "http_NewRequest L RequestCtx ''POST'' (UpstreamURL cfg @ ''/api/chat'') b = Inr q"
    and "http_Do L (Header_Set ''Content-Type'' ''application/json'' q) = Inr r"
  using assms by (auto simp: streaming_upstream_def split: sum.splits)

lemma handleStreamingChat_error_status:
  assumes "streaming_upstream L (config p) req = Some r" and "StatusCode r \<noteq> StatusOK"
  shows "handleStreamingChat H L p req =
           (log ErrorLevel ''upstream returned error''
              (log DebugLevel ''forwarding streaming request to upstream'' p),
            JSON_reply (StatusCode r) (ErrorResponse_JSON ''upstream error''))"
proof -
  from assms(1) obtain b q where "Marshal_ChatRequest L req = Inr b"
    and "http_NewRequest L RequestCtx ''POST'' (UpstreamURL (config p) @ ''/api/chat'') b = Inr q"
    and "http_Do L (Header_Set ''Content-Type'' ''application/json'' q) = Inr r"
    by (rule streaming_upstream_SomeD)
  with assms(2) show ?thesis
    by (simp add: handleStreamingChat_def Let_def)
qed

lemma handleStreamingChat_streams:
  assumes "streaming_upstream L (config p) req = Some r" and "StatusCode r = StatusOK"
  shows "handleStreamingChat H L p req =
           (fst (streamWriter H L (log DebugLevel ''forwarding streaming request to upstream'' p)
                   req (Body r) \<lparr>buffered = [], flushed = []\<rparr>),
            \<lparr>Status = StatusOK,
             Headers = [(''Content-Type'', ''application/x-ndjson''),
                        (''Transfer-Encoding'', ''chunked'')],
             Payload = Streamed (map (\<lambda>l. l @ [CHR 0x0A])
                                  (filter (forwarded L) (Tokens (Body r))))\<rparr>)"
proof -
  from assms(1) obtain b q where "Marshal_ChatRequest L req = Inr b"
    and "http_NewRequest L RequestCtx ''POST'' (UpstreamURL (config p) @ ''/api/chat'') b = Inr q"
    and "http_Do L (Header_Set ''Content-Type'' ''application/json'' q) = Inr r"
    by (rule streaming_upstream_SomeD)
  with assms(2) streamWriter_flushed [of H L
      "log DebugLevel ''forwarding streaming request to upstream'' p" req "Body r"]
  show ?thesis
    by (simp add: handleStreamingChat_def Let_def case_prod_beta)
qed

lemma handleStreamingChat_reply_config:
  assumes "config p2 = config p"
  shows "snd (handleStreamingChat H L p2 req) = snd (handleStreamingChat H L p req)"
proof (cases "streaming_upstream L (config p) req")
  case None
  then show ?thesis
    using assms
    by (auto simp: handleStreamingChat_def streaming_upstream_def Let_def split: sum.splits)
next
  case (Some r)
  show ?thesis
  proof (cases "StatusCode r = StatusOK")
    case True
    from handleStreamingChat_streams [OF Some True, of H]
      handleStreamingChat_streams [of L p2 req r H] Some True assms
    show ?thesis by simp
  next
    case False
    from handleStreamingChat_error_status [OF Some False, of H]
      handleStreamingChat_error_status [of L p2 req r H] Some False assms
    show ?thesis by simp
  qed
qed

lemma putAll_recStorer: "putAll recStorer c s ns = (s @ ns, None)"
  by (induction ns arbitrary: s) (simp_all add: recStorer_def)

lemma turn_nodes_last_role:
  "json_field ''role'' (Content (last (turn_nodes H req resp)))
     = Some (JStr (Role (resp_Message resp)))"
  by (simp add: turn_nodes_def Let_def Content_NewNode json_field_def)

section \<open>The streaming stand-ins, evaluated\<close>

lemma demo_streaming_upstream:
  "streaming_upstream (demo_lib r) (config (demo_proxy S s)) demo_req = Some r"
  by (simp add: streaming_upstream_def demo_lib_def)

lemma demo_lines_differ:
  "line_part \<noteq> []" "line_done \<noteq> []" "line_done \<noteq> line_part"
  "''not json'' \<noteq> line_part" "''not json'' \<noteq> line_done"
  by (simp_all add: line_part_def line_done_def)

lemma demo_Unmarshal:
  "Unmarshal_StreamChunk (demo_lib r) line_part = Inr chunk_part"
  "Unmarshal_StreamChunk (demo_lib r) line_done = Inr chunk_done"
  "Unmarshal_StreamChunk (demo_lib r) ''not json'' = Inl (Err ''invalid character'')"
  by (simp_all add: demo_lib_def demo_lines_differ)


lemma demo_done_line: "\<exists>l \<in> set (Tokens (Body upstream_stream)). done_line (demo_lib r) l"
  by (simp add: upstream_stream_def done_line_def demo_Unmarshal demo_lines_differ
      chunk_done_def)

lemma demo_loop_final:
  "finalResp (streamLoop (demo_lib r) (Tokens (Body upstream_stream))
     \<lparr>st_proxy = p, st_w = w, fullContent = [], finalResp = None\<rparr>) = Some demo_final"
  by (simp add: upstream_stream_def demo_Unmarshal demo_lines_differ Let_def
      chunk_part_def chunk_done_def demo_final_def)

lemma storeConversationTurn_recStorer:
  "storer p = recStorer \<Longrightarrow>
   store (fst (storeConversationTurn H p c req resp)) = store p @ turn_nodes H req resp"
  by (rule storeConversationTurn_ok(1)) (simp add: putAll_recStorer)

lemma demo_stream_store:
  "store (fst (handleStreamingChat demo_hasher (demo_lib upstream_stream)
                 (demo_proxy recStorer []) demo_req))
     = turn_nodes demo_hasher demo_req demo_final"
proof -
  have ok: "StatusCode upstream_stream = StatusOK"
    by (simp add: upstream_stream_def StatusOK_def)
  show ?thesis
    unfolding handleStreamingChat_streams [OF demo_streaming_upstream ok]
    by (simp add: streamWriter_def Let_def demo_loop_final case_prod_beta
        storeConversationTurn_recStorer streamLoop_proxy demo_proxy_def
        split: sum.splits option.splits)
qed

lemma demo_ok_status: "StatusCode upstream_stream = StatusOK"
  by (simp add: upstream_stream_def StatusOK_def)

lemma demo_error_status: "StatusCode upstream_500 \<noteq> StatusOK"
  by (simp add: upstream_500_def StatusOK_def)

lemma demo_truncated_status: "StatusCode upstream_truncated = StatusOK"
  by (simp add: upstream_truncated_def StatusOK_def)

lemma demo_truncated_not_done:
  "\<not> (\<exists>l \<in> set (Tokens (Body upstream_truncated)). done_line (demo_lib r) l)"
  by (simp add: upstream_truncated_def done_line_def demo_Unmarshal chunk_part_def)

section \<open>Properties of the non-streaming handler\<close>

lemma forwardRequest_config:
  assumes "config p2 = config p"
  shows "snd (forwardRequest L p2 req) = snd (forwardRequest L p req)"
  using assms
  by (simp add: forwardRequest_def Let_def split: sum.splits prod.splits option.splits)

lemma handleNonStreamingChat_ok:
  assumes "forwardRequest L p req = (p1, req1, Inr resp)"
  shows "handleNonStreamingChat H L p req =
           (case storeConversationTurn H (log DebugLevel ''received response from upstream'' p1)
                   RequestCtx req1 resp of
              (p', Inl err) \<Rightarrow> log ErrorLevel ''failed to store conversation'' p'
            | (p', Inr headHash) \<Rightarrow> log InfoLevel ''conversation stored'' p',
            JSON_reply StatusOK (Marshal_ChatResponse L resp))"
  by (simp add: handleNonStreamingChat_def assms Let_def)

lemma handleNonStreamingChat_reply_config:
  assumes "config p2 = config p"
  shows "snd (handleNonStreamingChat H L p2 req) = snd (handleNonStreamingChat H L p req)"
proof -
  obtain p1 req1 r where a: "forwardRequest L p req = (p1, req1, r)"
    by (cases "forwardRequest L p req") auto
  obtain q1 req2 r2 where b: "forwardRequest L p2 req = (q1, req2, r2)"
    by (cases "forwardRequest L p2 req") auto
  from forwardRequest_config [OF assms, of L req] a b have "req2 = req1" "r2 = r"
    by simp_all
  then show ?thesis
    by (cases r) (simp_all add: handleNonStreamingChat_def a b Let_def)
qed

lemma demo_forwardRequest:
  "forwardRequest (demo_lib upstream_answer) (demo_proxy S s) demo_req =
     (log DebugLevel ''forwarding request to upstream'' (demo_proxy S s),
      demo_req\<lparr>req_Stream := Some False\<rparr>, Inr demo_resp)"
  by (simp add: forwardRequest_def demo_lib_def upstream_answer_def Let_def StatusOK_def)

section \<open>Properties of the line scanner\<close>





section \<open>The scanner on the stand-in bodies\<close>








lemma demo_forwarded_clean:
  "filter (forwarded (demo_lib r)) (Tokens (Body upstream_clean)) = [line_part, line_done]"
  by (simp add: upstream_clean_def forwarded_def demo_Unmarshal demo_lines_differ)

section \<open>C3: the hash of a new node\<close>

text \<open>
  C3. For every content value and every parent, the hash of \<open>NewNode content parent\<close> has
  64 characters, all of them lowercase hexadecimal digits; it is the hex encoding of the
  SHA-256 digest of the marshalled pair of the content and the parent's hash (the empty
  string without a parent); and two calls with equal content and equal parent hash give
  equal hashes, whatever else the parents differ in.
\<close>

theorem NewNode_hash_hex_deterministic:
  "length (Hash (NewNode H content parent)) = 64
   \<and> set (Hash (NewNode H content parent)) \<subseteq> set ''0123456789abcdef''
   \<and> Hash (NewNode H content parent) =
       EncodeToString (Rep_digest (sha256_Sum256 H (json_Marshal H
         \<lparr>i_Content = content,
          i_Parent = (case parent of None \<Rightarrow> [] | Some p \<Rightarrow> Hash p)\<rparr>)))
   \<and> (map_option Hash parent = map_option Hash parent'
        \<longrightarrow> Hash (NewNode H content parent) = Hash (NewNode H content parent'))"
proof (intro conjI impI)
  show "length (Hash (NewNode H content parent)) = 64"
    by (simp add: Hash_NewNode length_computeHash)
  show "set (Hash (NewNode H content parent)) \<subseteq> set ''0123456789abcdef''"
    using set_computeHash [of H] by (simp add: Hash_NewNode hextable_def)
  show "Hash (NewNode H content parent) =
       EncodeToString (Rep_digest (sha256_Sum256 H (json_Marshal H
         \<lparr>i_Content = content,
          i_Parent = (case parent of None \<Rightarrow> [] | Some p \<Rightarrow> Hash p)\<rparr>)))"
    by (cases parent) (simp_all add: Hash_NewNode computeHash_def Let_def)
  assume "map_option Hash parent = map_option Hash parent'"
  then show "Hash (NewNode H content parent) = Hash (NewNode H content parent')"
    by (simp add: Hash_NewNode)
qed

text \<open>The theorem at two parents that share a hash and differ in everything else.\<close>

theorem NewNode_hash_hex_deterministic_witness:
  "map_option Hash (Some \<lparr>Hash = ''ab'', ParentHash = None, Content = JNull\<rparr>)
     = map_option Hash (Some \<lparr>Hash = ''ab'', ParentHash = Some ''cd'', Content = JStr ''x''\<rparr>)
   \<and> length (Hash (NewNode demo_hasher (JStr ''hello world'')
         (Some \<lparr>Hash = ''ab'', ParentHash = None, Content = JNull\<rparr>))) = 64
   \<and> Hash (NewNode demo_hasher (JStr ''hello world'')
         (Some \<lparr>Hash = ''ab'', ParentHash = None, Content = JNull\<rparr>))
     = Hash (NewNode demo_hasher (JStr ''hello world'')
         (Some \<lparr>Hash = ''ab'', ParentHash = Some ''cd'', Content = JStr ''x''\<rparr>))"
proof -
  have e: "map_option Hash (Some \<lparr>Hash = ''ab'', ParentHash = None, Content = JNull\<rparr>)
     = map_option Hash (Some \<lparr>Hash = ''ab'', ParentHash = Some ''cd'', Content = JStr ''x''\<rparr>)"
    by simp
  from e NewNode_hash_hex_deterministic
    [of demo_hasher "JStr ''hello world''"
        "Some \<lparr>Hash = ''ab'', ParentHash = None, Content = JNull\<rparr>"
        "Some \<lparr>Hash = ''ab'', ParentHash = Some ''cd'', Content = JStr ''x''\<rparr>"]
  show ?thesis by blast
qed

section \<open>C1: the chain a conversation turn stores\<close>




section \<open>C2: put is idempotent by hash\<close>

text \<open>
  C2. Take any sequence of puts on a new in-memory store, by any callers and in any order
  the lock lets them through, nil nodes and other nodes among them. If the node \<open>n\<close> is put
  at least once, the list of the store holds exactly one record with the hash of \<open>n\<close>;
  putting \<open>n\<close> alone \<open>N \<ge> 1\<close> times leaves exactly the record \<open>n\<close>; and a put whose hash is
  present returns no error, reports "not new" and leaves the store as it was.
\<close>

theorem mem_Put_idempotent:
  "(Some n \<in> set ops \<longrightarrow>
      length (filter (\<lambda>r. Hash r = Hash n) (mem_List (mem_Puts NewMemoryStorer ops))) = 1)
   \<and> (0 < N \<longrightarrow> mem_List (mem_Puts NewMemoryStorer (replicate N (Some n))) = [n])
   \<and> (mem_Has s (Hash n) \<longrightarrow> mem_Put s (Some n) = (s, Inr False))"
proof (intro conjI impI)
  assume "Some n \<in> set ops"
  then have "mem_Has (mem_Puts NewMemoryStorer ops) (Hash n)"
    by (rule mem_Has_Puts_mem)
  with mem_wf_count [OF mem_wf_Puts [OF mem_wf_New], of "Hash n" ops]
  show "length (filter (\<lambda>r. Hash r = Hash n) (mem_List (mem_Puts NewMemoryStorer ops))) = 1"
    by simp
next
  assume "0 < N"
  then obtain M where N: "N = Suc M" by (cases N) simp_all
  have keep: "mem_Puts [(Hash n, n)] (replicate M (Some n)) = [(Hash n, n)]" for M
    by (induction M) (simp_all add: mem_Put_def mem_Has_def)
  show "mem_List (mem_Puts NewMemoryStorer (replicate N (Some n))) = [n]"
    by (simp add: N NewMemoryStorer_def mem_Put_def mem_Has_def keep mem_List_def)
next
  assume "mem_Has s (Hash n)"
  then show "mem_Put s (Some n) = (s, Inr False)"
    by (simp add: mem_Put_def)
qed

text \<open>
  Five puts in a row, three of them of the same node and one of a nil node; three puts of
  one node; a put on a store that has the hash.
\<close>

theorem mem_Put_idempotent_witness:
  "Some node_a \<in> set [Some node_a, Some node_b, None, Some node_a, Some node_a]
   \<and> mem_List (mem_Puts NewMemoryStorer [Some node_a, Some node_b, None, Some node_a, Some node_a])
       = [node_a, node_b]
   \<and> length (filter (\<lambda>r. Hash r = Hash node_a)
        (mem_List (mem_Puts NewMemoryStorer
           [Some node_a, Some node_b, None, Some node_a, Some node_a]))) = 1
   \<and> (0::nat) < 3
   \<and> mem_List (mem_Puts NewMemoryStorer (replicate 3 (Some node_a))) = [node_a]
   \<and> mem_Has [(''aa'', node_a)] (Hash node_a)
   \<and> mem_Put [(''aa'', node_a)] (Some node_a) = ([(''aa'', node_a)], Inr False)"
  using mem_Put_idempotent
    [of node_a "[Some node_a, Some node_b, None, Some node_a, Some node_a]" 3
        "[(''aa'', node_a)]"]
  by (simp add: node_a_def node_b_def mem_Has_def mem_Put_def mem_List_def NewMemoryStorer_def)

section \<open>C4: what the streaming path passes on to the client\<close>




section \<open>C5: when the streaming path records\<close>

text \<open>
  C5. Each call of the recorder in the streaming handler is followed by exactly one of the
  log lines "failed to store conversation" and "conversation stored", so their number
  counts the calls. For every streaming request the handler adds at most one. When the
  upstream answers with status 200 it adds exactly one, and the store is the one a single
  \<open>storeConversationTurn\<close> under \<open>context.Background()\<close> leaves, if some line of the body is
  not empty and decodes as a chunk with \<open>done\<close> set; otherwise, whether or not the scanner
  ended with an error, it adds none and the store is unchanged. What the client is sent
  does not depend on the store at all, so a failure of the recorder never reaches the
  client.
\<close>

theorem streaming_records_once:
  "recorder_outcomes (logger (fst (handleStreamingChat H L p req)))
     \<le> recorder_outcomes (logger p) + 1
   \<and> (streaming_upstream L (config p) req = Some r \<and> StatusCode r = StatusOK \<longrightarrow>
        (if \<exists>l \<in> set (Tokens (Body r)). done_line L l
         then recorder_outcomes (logger (fst (handleStreamingChat H L p req)))
                = recorder_outcomes (logger p) + 1
              \<and> (\<exists>fr p1. storer p1 = storer p \<and> store p1 = store p
                    \<and> store (fst (handleStreamingChat H L p req))
                        = store (fst (storeConversationTurn H p1 Background req fr)))
         else recorder_outcomes (logger (fst (handleStreamingChat H L p req)))
                = recorder_outcomes (logger p)
              \<and> store (fst (handleStreamingChat H L p req)) = store p))
   \<and> (config p2 = config p \<longrightarrow>
        snd (handleStreamingChat H L p2 req) = snd (handleStreamingChat H L p req))"
proof (intro conjI impI)
  let ?q = "log DebugLevel ''forwarding streaming request to upstream'' p"
  have streams: "(if \<exists>l \<in> set (Tokens (Body r)). done_line L l
         then recorder_outcomes (logger (fst (handleStreamingChat H L p req)))
                = recorder_outcomes (logger p) + 1
              \<and> (\<exists>fr p1. storer p1 = storer p \<and> store p1 = store p
                    \<and> store (fst (handleStreamingChat H L p req))
                        = store (fst (storeConversationTurn H p1 Background req fr)))
         else recorder_outcomes (logger (fst (handleStreamingChat H L p req)))
                = recorder_outcomes (logger p)
              \<and> store (fst (handleStreamingChat H L p req)) = store p)"
    if up: "streaming_upstream L (config p) req = Some r" and ok: "StatusCode r = StatusOK"
    for r
  proof (cases "\<exists>l \<in> set (Tokens (Body r)). done_line L l")
    case True
    from streamWriter_done [OF True, where H = H and p = ?q and req = req
        and w = "\<lparr>buffered = [], flushed = []\<rparr>"]
    obtain fr p1 where "storer p1 = storer p" "store p1 = store p"
      "store (fst (streamWriter H L ?q req (Body r) \<lparr>buffered = [], flushed = []\<rparr>))
         = store (fst (storeConversationTurn H p1 Background req fr))"
      "recorder_outcomes (logger (fst (streamWriter H L ?q req (Body r)
          \<lparr>buffered = [], flushed = []\<rparr>))) = recorder_outcomes (logger p) + 1"
      by (auto simp: recorder_outcomes_log)
    with True show ?thesis
      by (auto simp: handleStreamingChat_streams [OF up ok])
  next
    case False
    then have nd: "\<forall>l \<in> set (Tokens (Body r)). \<not> done_line L l" by simp
    from streamWriter_not_done [OF nd, where H = H and p = ?q and req = req
        and w = "\<lparr>buffered = [], flushed = []\<rparr>"] False
    show ?thesis
      by (simp add: handleStreamingChat_streams [OF up ok] recorder_outcomes_log)
  qed
  show "recorder_outcomes (logger (fst (handleStreamingChat H L p req)))
     \<le> recorder_outcomes (logger p) + 1"
  proof (cases "streaming_upstream L (config p) req")
    case None
    then show ?thesis by (simp add: handleStreamingChat_no_upstream)
  next
    case (Some r')
    show ?thesis
    proof (cases "StatusCode r' = StatusOK")
      case True
      from streams [OF Some True] show ?thesis
        by (auto split: if_splits)
    next
      case False
      then show ?thesis
        by (simp add: handleStreamingChat_error_status [OF Some False] recorder_outcomes_log)
    qed
  qed
  show "if \<exists>l \<in> set (Tokens (Body r)). done_line L l
         then recorder_outcomes (logger (fst (handleStreamingChat H L p req)))
                = recorder_outcomes (logger p) + 1
              \<and> (\<exists>fr p1. storer p1 = storer p \<and> store p1 = store p
                    \<and> store (fst (handleStreamingChat H L p req))
                        = store (fst (storeConversationTurn H p1 Background req fr)))
         else recorder_outcomes (logger (fst (handleStreamingChat H L p req)))
                = recorder_outcomes (logger p)
              \<and> store (fst (handleStreamingChat H L p req)) = store p"
    if "streaming_upstream L (config p) req = Some r \<and> StatusCode r = StatusOK"
    using streams that by blast
  show "snd (handleStreamingChat H L p2 req) = snd (handleStreamingChat H L p req)"
    if "config p2 = config p"
    using that by (rule handleStreamingChat_reply_config)
qed

text \<open>
  The claim on the body of four lines with a store that refuses every put: the recorder
  runs once, and the client is sent what it is sent with the in-memory store. On a body
  that breaks off with a scanner error before any \<open>done\<close> chunk the recorder does not run
  and the store stays empty.
\<close>

theorem streaming_records_once_witness:
  "streaming_upstream (demo_lib upstream_stream)
       (config (demo_proxy lockedStorer NewMemoryStorer)) demo_req = Some upstream_stream
   \<and> StatusCode upstream_stream = StatusOK
   \<and> (\<exists>l \<in> set (Tokens (Body upstream_stream)). done_line (demo_lib upstream_stream) l)
   \<and> config (demo_proxy memStorer NewMemoryStorer)
       = config (demo_proxy lockedStorer NewMemoryStorer)
   \<and> recorder_outcomes (logger (fst (handleStreamingChat demo_hasher (demo_lib upstream_stream)
         (demo_proxy lockedStorer NewMemoryStorer) demo_req))) = 1
   \<and> snd (handleStreamingChat demo_hasher (demo_lib upstream_stream)
            (demo_proxy memStorer NewMemoryStorer) demo_req)
       = snd (handleStreamingChat demo_hasher (demo_lib upstream_stream)
            (demo_proxy lockedStorer NewMemoryStorer) demo_req)
   \<and> ScanErr (Body upstream_truncated) = Some (Err ''unexpected EOF'')
   \<and> \<not> (\<exists>l \<in> set (Tokens (Body upstream_truncated)).
            done_line (demo_lib upstream_truncated) l)
   \<and> recorder_outcomes (logger (fst (handleStreamingChat demo_hasher
         (demo_lib upstream_truncated) (demo_proxy memStorer NewMemoryStorer) demo_req))) = 0
   \<and> mem_List (store (fst (handleStreamingChat demo_hasher (demo_lib upstream_truncated)
         (demo_proxy memStorer NewMemoryStorer) demo_req))) = []"
proof -
  have c: "config (demo_proxy memStorer NewMemoryStorer)
       = config (demo_proxy lockedStorer NewMemoryStorer)"
    by (simp add: demo_proxy_def)
  have l: "recorder_outcomes (logger (demo_proxy lockedStorer NewMemoryStorer)) = 0"
    "recorder_outcomes (logger (demo_proxy memStorer NewMemoryStorer)) = 0"
    by (simp_all add: demo_proxy_def recorder_outcomes_def)
  have s: "mem_List (store (demo_proxy memStorer NewMemoryStorer)) = []"
    "ScanErr (Body upstream_truncated) = Some (Err ''unexpected EOF'')"
    by (simp_all add: demo_proxy_def NewMemoryStorer_def mem_List_def upstream_truncated_def)
  from streaming_records_once
    [of demo_hasher "demo_lib upstream_stream" "demo_proxy lockedStorer NewMemoryStorer"
        demo_req upstream_stream "demo_proxy memStorer NewMemoryStorer"]
    demo_streaming_upstream [of upstream_stream lockedStorer NewMemoryStorer]
    demo_ok_status demo_done_line [of upstream_stream] c l(1)
  have first: "recorder_outcomes (logger (fst (handleStreamingChat demo_hasher
         (demo_lib upstream_stream) (demo_proxy lockedStorer NewMemoryStorer) demo_req))) = 1
   \<and> snd (handleStreamingChat demo_hasher (demo_lib upstream_stream)
            (demo_proxy memStorer NewMemoryStorer) demo_req)
       = snd (handleStreamingChat demo_hasher (demo_lib upstream_stream)
            (demo_proxy lockedStorer NewMemoryStorer) demo_req)"
    by simp
  from streaming_records_once
    [of demo_hasher "demo_lib upstream_truncated" "demo_proxy memStorer NewMemoryStorer"
        demo_req upstream_truncated "demo_proxy memStorer NewMemoryStorer"]
    demo_streaming_upstream [of upstream_truncated memStorer NewMemoryStorer]
    demo_truncated_status demo_truncated_not_done [of upstream_truncated] l(2) s(1)
  have second: "recorder_outcomes (logger (fst (handleStreamingChat demo_hasher
         (demo_lib upstream_truncated) (demo_proxy memStorer NewMemoryStorer) demo_req))) = 0
   \<and> mem_List (store (fst (handleStreamingChat demo_hasher (demo_lib upstream_truncated)
         (demo_proxy memStorer NewMemoryStorer) demo_req))) = []"
    by simp
  from first second demo_streaming_upstream [of upstream_stream lockedStorer NewMemoryStorer]
    demo_ok_status demo_done_line [of upstream_stream] c s(2)
    demo_truncated_not_done [of upstream_truncated]
  show ?thesis by blast
qed

section \<open>C7: an upstream error on the streaming path\<close>

text \<open>
  C7, as stated: on a non-2xx status the client is sent the upstream's status and body. It
  fails on the body: for an upstream answer 500 with body \<open>boom\<close> the client is sent
  status 500 with the body \<open>{"error":"upstream error"}\<close>.
\<close>

theorem streaming_upstream_error_counterexample:
  \<open>StatusCode upstream_500 = 500
   \<and> ReadAll (Body upstream_500) = (''boom'', None)
   \<and> Status (snd (handleStreamingChat demo_hasher (demo_lib upstream_500)
                     (demo_proxy memStorer NewMemoryStorer) demo_req)) = 500
   \<and> Payload (snd (handleStreamingChat demo_hasher (demo_lib upstream_500)
                      (demo_proxy memStorer NewMemoryStorer) demo_req))
       = Bytes ''{"error":"upstream error"}''
   \<and> Payload (snd (handleStreamingChat demo_hasher (demo_lib upstream_500)
                      (demo_proxy memStorer NewMemoryStorer) demo_req))
       \<noteq> Bytes ''boom''\<close>
  by (simp add: handleStreamingChat_error_status [OF demo_streaming_upstream demo_error_status]
      JSON_reply_def ErrorResponse_JSON_def) (simp add: upstream_500_def)

text \<open>
  C7, amended. Whenever the upstream answers the streaming request with a non-2xx status,
  the client is sent that status with the JSON body \<open>{"error":"upstream error"}\<close>; the
  upstream's body is read for the log only; the recorder is not called and the store is
  unchanged. (Every non-2xx status differs from 200, which is the handler's test and the
  theorem's hypothesis.)
\<close>

theorem streaming_upstream_error_relayed:
  assumes "streaming_upstream L (config p) req = Some r" and "StatusCode r \<noteq> StatusOK"
  shows "snd (handleStreamingChat H L p req) =
           \<lparr>Status = StatusCode r,
            Headers = [(''Content-Type'', ''application/json'')],
            Payload = Bytes (ErrorResponse_JSON ''upstream error'')\<rparr>
         \<and> store (fst (handleStreamingChat H L p req)) = store p
         \<and> recorder_outcomes (logger (fst (handleStreamingChat H L p req)))
             = recorder_outcomes (logger p)"
  by (simp add: handleStreamingChat_error_status [OF assms] JSON_reply_def
      recorder_outcomes_log)

text \<open>The amended claim on the upstream answer 500 with body \<open>boom\<close>.\<close>

theorem streaming_upstream_error_relayed_witness:
  \<open>streaming_upstream (demo_lib upstream_500)
       (config (demo_proxy memStorer NewMemoryStorer)) demo_req = Some upstream_500
   \<and> StatusCode upstream_500 \<noteq> StatusOK
   \<and> snd (handleStreamingChat demo_hasher (demo_lib upstream_500)
             (demo_proxy memStorer NewMemoryStorer) demo_req)
       = \<lparr>Status = 500, Headers = [(''Content-Type'', ''application/json'')],
          Payload = Bytes ''{"error":"upstream error"}''\<rparr>
   \<and> mem_List (store (fst (handleStreamingChat demo_hasher (demo_lib upstream_500)
                              (demo_proxy memStorer NewMemoryStorer) demo_req))) = []\<close>
  using streaming_upstream_error_relayed [OF demo_streaming_upstream demo_error_status,
      where H = demo_hasher and S1 = memStorer and s1 = NewMemoryStorer]
  by (simp add: demo_streaming_upstream demo_error_status ErrorResponse_JSON_def)
    (simp add: upstream_500_def demo_proxy_def NewMemoryStorer_def mem_List_def)

section \<open>C9: the role of a streamed response\<close>

text \<open>
  C9. The chat response the streaming loop builds has the message role \<open>assistant\<close>,
  whatever the roles in the chunks. With a store that keeps every node it is given, a
  streamed request that changes the store appends the nodes of one turn, and the last of
  them, the response node, has \<open>assistant\<close> as the \<open>role\<close> of its content.
\<close>

theorem streaming_final_role_assistant:
  "(finalResp (streamLoop L lines
       \<lparr>st_proxy = p, st_w = w, fullContent = [], finalResp = None\<rparr>) = Some fr
      \<longrightarrow> Role (resp_Message fr) = ''assistant'')
   \<and> (streaming_upstream L (config q) req = Some r \<and> StatusCode r = StatusOK
        \<and> storer q = recStorer
        \<and> store (fst (handleStreamingChat H L q req)) \<noteq> store q \<longrightarrow>
        (\<exists>ns. store (fst (handleStreamingChat H L q req)) = store q @ ns
           \<and> length ns = length (req_Messages req) + 1
           \<and> json_field ''role'' (Content (last ns)) = Some (JStr ''assistant'')))"
proof (intro conjI impI)
  assume "finalResp (streamLoop L lines
       \<lparr>st_proxy = p, st_w = w, fullContent = [], finalResp = None\<rparr>) = Some fr"
  from streamLoop_final_role [OF this] show "Role (resp_Message fr) = ''assistant''"
    by simp
next
  let ?q = "log DebugLevel ''forwarding streaming request to upstream'' q"
  let ?w = "\<lparr>buffered = [], flushed = []\<rparr>"
  assume a: "streaming_upstream L (config q) req = Some r \<and> StatusCode r = StatusOK
        \<and> storer q = recStorer
        \<and> store (fst (handleStreamingChat H L q req)) \<noteq> store q"
  then have up: "streaming_upstream L (config q) req = Some r" and ok: "StatusCode r = StatusOK"
    and rec: "storer q = recStorer"
    by simp_all
  from a have ch: "store (fst (streamWriter H L ?q req (Body r) ?w)) \<noteq> store q"
    by (simp add: handleStreamingChat_streams [OF up ok])
  have dn: "\<exists>l \<in> set (Tokens (Body r)). done_line L l"
  proof (rule ccontr)
    assume "\<not> (\<exists>l \<in> set (Tokens (Body r)). done_line L l)"
    then have "\<forall>l \<in> set (Tokens (Body r)). \<not> done_line L l" by simp
    from streamWriter_not_done(1) [OF this, where H = H and p = ?q and req = req and w = ?w] ch
    show False by simp
  qed
  from streamWriter_done [OF dn, where H = H and p = ?q and req = req and w = ?w]
  obtain fr p1 where role: "Role (resp_Message fr) = ''assistant''"
    and p1: "storer p1 = storer q" "store p1 = store q"
    and st: "store (fst (streamWriter H L ?q req (Body r) ?w))
               = store (fst (storeConversationTurn H p1 Background req fr))"
    by auto
  have "putAll (storer p1) Background (store p1) (turn_nodes H req fr)
          = (store q @ turn_nodes H req fr, None)"
    by (simp add: p1 rec putAll_recStorer)
  from storeConversationTurn_ok(1) [OF this] st
  have "store (fst (handleStreamingChat H L q req)) = store q @ turn_nodes H req fr"
    by (simp add: handleStreamingChat_streams [OF up ok])
  moreover have "length (turn_nodes H req fr) = length (req_Messages req) + 1"
    by (rule length_turn_nodes)
  moreover have "json_field ''role'' (Content (last (turn_nodes H req fr)))
                   = Some (JStr ''assistant'')"
    by (simp add: turn_nodes_last_role role)
  ultimately show "\<exists>ns. store (fst (handleStreamingChat H L q req)) = store q @ ns
           \<and> length ns = length (req_Messages req) + 1
           \<and> json_field ''role'' (Content (last ns)) = Some (JStr ''assistant'')"
    by blast
qed

text \<open>
  The claim on two chunks whose role is \<open>tool\<close>: the response built, and the response
  node stored, have the role \<open>assistant\<close>.
\<close>

theorem streaming_final_role_assistant_witness:
  "Role (chunk_Message chunk_done) = ''tool''
   \<and> finalResp (streamLoop (demo_lib upstream_stream) (Tokens (Body upstream_stream))
        \<lparr>st_proxy = demo_proxy recStorer [], st_w = \<lparr>buffered = [], flushed = []\<rparr>,
         fullContent = [], finalResp = None\<rparr>) = Some demo_final
   \<and> Role (resp_Message demo_final) = ''assistant''
   \<and> streaming_upstream (demo_lib upstream_stream) (config (demo_proxy recStorer []))
        demo_req = Some upstream_stream
   \<and> store (fst (handleStreamingChat demo_hasher (demo_lib upstream_stream)
                    (demo_proxy recStorer []) demo_req)) \<noteq> store (demo_proxy recStorer [])
   \<and> length (store (fst (handleStreamingChat demo_hasher (demo_lib upstream_stream)
                            (demo_proxy recStorer []) demo_req))) = 2
   \<and> json_field ''role'' (Content (last (store (fst (handleStreamingChat demo_hasher
         (demo_lib upstream_stream) (demo_proxy recStorer []) demo_req)))))
       = Some (JStr ''assistant'')"
proof -
  have ne: "store (fst (handleStreamingChat demo_hasher (demo_lib upstream_stream)
                    (demo_proxy recStorer []) demo_req)) \<noteq> store (demo_proxy recStorer [])"
    unfolding demo_stream_store by (simp add: demo_proxy_def turn_nodes_def Let_def)
  have rs: "storer (demo_proxy recStorer []) = recStorer" "store (demo_proxy recStorer []) = []"
    by (simp_all add: demo_proxy_def)
  have k: "length (req_Messages demo_req) = 1"
    by (simp add: demo_req_def)
  from streaming_final_role_assistant
    [of "demo_lib upstream_stream" "Tokens (Body upstream_stream)" "demo_proxy recStorer []"
        "\<lparr>buffered = [], flushed = []\<rparr>" demo_final "demo_proxy recStorer []" demo_req
        upstream_stream demo_hasher]
    demo_loop_final [of upstream_stream "demo_proxy recStorer []"
        "\<lparr>buffered = [], flushed = []\<rparr>"]
    demo_streaming_upstream [of upstream_stream recStorer "[]"] demo_ok_status ne rs k
  show ?thesis
    by (auto simp: chunk_done_def)
qed

section \<open>C8: the non-streaming reply when recording fails\<close>

text \<open>
  C8. When the upstream has answered a non-streaming request with a chat response, the
  client is sent status 200 with that response as JSON, whatever the recorder returns. If
  \<open>storeConversationTurn\<close> returns an error, the handler appends the log line "failed to
  store conversation" to what the recorder logged and does nothing else with the error;
  and the reply is the same for every store, so it is the reply of a successful recording.
\<close>

theorem nonstreaming_reply_despite_store_error:
  assumes "forwardRequest L p req = (p1, req1, Inr resp)"
  shows "snd (handleNonStreamingChat H L p req) =
           \<lparr>Status = StatusOK, Headers = [(''Content-Type'', ''application/json'')],
            Payload = Bytes (Marshal_ChatResponse L resp)\<rparr>
         \<and> (snd (storeConversationTurn H
                   (log DebugLevel ''received response from upstream'' p1)
                   RequestCtx req1 resp) = Inl err \<longrightarrow>
              logger (fst (handleNonStreamingChat H L p req)) =
                logger (fst (storeConversationTurn H
                   (log DebugLevel ''received response from upstream'' p1)
                   RequestCtx req1 resp))
                @ [(ErrorLevel, ''failed to store conversation'')])
         \<and> (config p2 = config p \<longrightarrow>
              snd (handleNonStreamingChat H L p2 req) = snd (handleNonStreamingChat H L p req))"
proof (intro conjI impI)
  show "snd (handleNonStreamingChat H L p req) =
           \<lparr>Status = StatusOK, Headers = [(''Content-Type'', ''application/json'')],
            Payload = Bytes (Marshal_ChatResponse L resp)\<rparr>"
    by (simp add: handleNonStreamingChat_ok [OF assms] JSON_reply_def)
  show "logger (fst (handleNonStreamingChat H L p req)) =
                logger (fst (storeConversationTurn H
                   (log DebugLevel ''received response from upstream'' p1)
                   RequestCtx req1 resp))
                @ [(ErrorLevel, ''failed to store conversation'')]"
    if "snd (storeConversationTurn H
                   (log DebugLevel ''received response from upstream'' p1)
                   RequestCtx req1 resp) = Inl err"
    using that
    by (cases "storeConversationTurn H (log DebugLevel ''received response from upstream'' p1)
                   RequestCtx req1 resp")
      (simp add: handleNonStreamingChat_ok [OF assms] log_def)
  show "snd (handleNonStreamingChat H L p2 req) = snd (handleNonStreamingChat H L p req)"
    if "config p2 = config p"
    using that by (rule handleNonStreamingChat_reply_config)
qed

text \<open>
  The claim with a store that refuses every put: the recorder fails, the client is sent
  the upstream's answer with status 200, as it is with the in-memory store.
\<close>

theorem nonstreaming_reply_despite_store_error_witness:
  "forwardRequest (demo_lib upstream_answer) (demo_proxy lockedStorer NewMemoryStorer) demo_req
     = (log DebugLevel ''forwarding request to upstream''
          (demo_proxy lockedStorer NewMemoryStorer),
        demo_req\<lparr>req_Stream := Some False\<rparr>, Inr demo_resp)
   \<and> snd (storeConversationTurn demo_hasher
            (log DebugLevel ''received response from upstream''
               (log DebugLevel ''forwarding request to upstream''
                  (demo_proxy lockedStorer NewMemoryStorer)))
            RequestCtx (demo_req\<lparr>req_Stream := Some False\<rparr>) demo_resp)
       = Inl (Wrap ''storing message node'' (Err ''database is locked''))
   \<and> snd (handleNonStreamingChat demo_hasher (demo_lib upstream_answer)
            (demo_proxy lockedStorer NewMemoryStorer) demo_req)
       = \<lparr>Status = 200, Headers = [(''Content-Type'', ''application/json'')],
          Payload = Bytes ''4''\<rparr>
   \<and> logger (fst (handleNonStreamingChat demo_hasher (demo_lib upstream_answer)
                     (demo_proxy lockedStorer NewMemoryStorer) demo_req))
       = [(DebugLevel, ''forwarding request to upstream''),
          (DebugLevel, ''received response from upstream''),
          (ErrorLevel, ''failed to store conversation'')]
   \<and> snd (handleNonStreamingChat demo_hasher (demo_lib upstream_answer)
            (demo_proxy memStorer NewMemoryStorer) demo_req)
       = snd (handleNonStreamingChat demo_hasher (demo_lib upstream_answer)
            (demo_proxy lockedStorer NewMemoryStorer) demo_req)"
proof -
  have e: "storeConversationTurn demo_hasher
            (log DebugLevel ''received response from upstream''
               (log DebugLevel ''forwarding request to upstream''
                  (demo_proxy lockedStorer NewMemoryStorer)))
            RequestCtx (demo_req\<lparr>req_Stream := Some False\<rparr>) demo_resp
       = (log DebugLevel ''received response from upstream''
               (log DebugLevel ''forwarding request to upstream''
                  (demo_proxy lockedStorer NewMemoryStorer)),
          Inl (Wrap ''storing message node'' (Err ''database is locked'')))"
    by (simp add: storeConversationTurn_def demo_req_def demo_proxy_def lockedStorer_def
        log_def Let_def)
  have c: "config (demo_proxy memStorer NewMemoryStorer)
             = config (demo_proxy lockedStorer NewMemoryStorer)"
    by (simp add: demo_proxy_def)
  from nonstreaming_reply_despite_store_error [OF demo_forwardRequest,
      where H = demo_hasher and err = "Wrap ''storing message node'' (Err ''database is locked'')"
        and ?p2.0 = "demo_proxy memStorer NewMemoryStorer"
        and S1 = lockedStorer and s1 = NewMemoryStorer] e c
  show ?thesis
    by (simp add: demo_forwardRequest) (simp add: demo_lib_def demo_resp_def StatusOK_def
        log_def demo_proxy_def)
qed

section \<open>C10: a node that cannot be read\<close>

text \<open>
  C10. For every hash the route hands to \<open>handleGetNode\<close> (the route parameter of a matching
  request is not empty; the handler answers an empty one with 400 before it asks the store)
  and every error the store's \<open>Get\<close> returns, not-found or any other, the client is sent
  status 404 with the body \<open>{"error":"node not found"}\<close>.
\<close>

theorem handleGetNode_any_error_404:
  assumes "hash \<noteq> []" and "Get (storer p) RequestCtx (store p) hash = Inl err"
  shows \<open>handleGetNode L p hash =
           \<lparr>Status = 404, Headers = [(''Content-Type'', ''application/json'')],
            Payload = Bytes ''{"error":"node not found"}''\<rparr>\<close>
  using assms
  by (simp add: handleGetNode_def JSON_reply_def StatusNotFound_def ErrorResponse_JSON_def)

text \<open>
  The claim with a store whose \<open>Get\<close> fails with a storage error, and with the in-memory
  store for a hash it does not hold.
\<close>

theorem handleGetNode_any_error_404_witness:
  \<open>Get (storer (demo_proxy lockedStorer NewMemoryStorer)) RequestCtx
       (store (demo_proxy lockedStorer NewMemoryStorer)) ''abc''
     = Inl (Err ''database is locked'')
   \<and> handleGetNode (demo_lib upstream_answer) (demo_proxy lockedStorer NewMemoryStorer) ''abc''
       = \<lparr>Status = 404, Headers = [(''Content-Type'', ''application/json'')],
          Payload = Bytes ''{"error":"node not found"}''\<rparr>
   \<and> Get (storer (demo_proxy memStorer NewMemoryStorer)) RequestCtx
       (store (demo_proxy memStorer NewMemoryStorer)) ''nonexistent''
     = Inl (ErrNotFound ''nonexistent'')
   \<and> handleGetNode (demo_lib upstream_answer) (demo_proxy memStorer NewMemoryStorer)
         ''nonexistent''
       = \<lparr>Status = 404, Headers = [(''Content-Type'', ''application/json'')],
          Payload = Bytes ''{"error":"node not found"}''\<rparr>\<close>
proof -
  have a: "Get (storer (demo_proxy lockedStorer NewMemoryStorer)) RequestCtx
       (store (demo_proxy lockedStorer NewMemoryStorer)) ''abc''
     = Inl (Err ''database is locked'')"
    by (simp add: demo_proxy_def lockedStorer_def)
  have b: "Get (storer (demo_proxy memStorer NewMemoryStorer)) RequestCtx
       (store (demo_proxy memStorer NewMemoryStorer)) ''nonexistent''
     = Inl (ErrNotFound ''nonexistent'')"
    by (simp add: demo_proxy_def memStorer_def mem_Get_def NewMemoryStorer_def)
  have n: "''abc'' \<noteq> []" "''nonexistent'' \<noteq> []" by simp_all
  from handleGetNode_any_error_404 [OF n(1) a, of "demo_lib upstream_answer"]
    handleGetNode_any_error_404 [OF n(2) b, of "demo_lib upstream_answer"] a b
  show ?thesis by simp
qed

end
